theory Spec2Isabelle
  imports Complex_Main "HOL-Library.Word" "HOL-Library.Sublist"
begin

text \<open>
  The repository holds two programs around the same two collaborators, a WhatsApp
  session library and a chat-completion client: the class \<open>WhatsAppBot\<close> with its
  Express routes, and the smaller index.js. Both are modelled here. A handler is a
  function from the environment (configuration and the collaborators' answers) and
  the state to the new state and the list of effects it has on the outside, in
  order. An exception is a value of the result. The functions are taken as they are
  written; the \<open>require\<close> pattern that opens the file of \<open>WhatsAppBot\<close> binds
  \<open>DisconnectReason\<close> twice, which the engine rejects when it loads the file,
  and which is outside the model.
\<close>

section \<open>JavaScript strings\<close>

text \<open>
  A JavaScript string is a sequence of 16-bit code units; \<open>length\<close>, \<open>includes\<close>,
  \<open>startsWith\<close>, \<open>endsWith\<close>, \<open>substring\<close> and \<open>replace\<close> all work on code units.
  \<open>js\<close> turns an ASCII literal into its code units.
\<close>

type_synonym jsstring = "16 word list"

definition js :: "string \<Rightarrow> jsstring" where
  "js s = map (\<lambda>c. word_of_nat (of_char c)) s"

fun startsWith :: "jsstring \<Rightarrow> jsstring \<Rightarrow> bool" where
  "startsWith s [] = True"
| "startsWith [] (p # ps) = False"
| "startsWith (c # cs) (p # ps) = (c = p \<and> startsWith cs ps)"

text \<open>\<open>s.includes(p)\<close>: \<open>p\<close> occurs at some position of \<open>s\<close>.\<close>

fun js_includes :: "jsstring \<Rightarrow> jsstring \<Rightarrow> bool" where
  "js_includes [] p = startsWith [] p"
| "js_includes (c # cs) p = (startsWith (c # cs) p \<or> js_includes cs p)"

definition endsWith :: "jsstring \<Rightarrow> jsstring \<Rightarrow> bool" where
  "endsWith s p = startsWith (rev s) (rev p)"

text \<open>
  \<open>trim\<close> removes white space and line terminators (ECMAScript \<open>WhiteSpace\<close> and
  \<open>LineTerminator\<close>, all of them single code units) from both ends.
\<close>

definition isWhiteSpace :: "16 word \<Rightarrow> bool" where
  "isWhiteSpace c =
     (c \<in> set [0x09, 0x0A, 0x0B, 0x0C, 0x0D, 0x20, 0xA0, 0x1680,
               0x2028, 0x2029, 0x202F, 0x205F, 0x3000, 0xFEFF]
      \<or> (0x2000 \<le> c \<and> c \<le> 0x200A))"

definition trim :: "jsstring \<Rightarrow> jsstring" where
  "trim s = rev (dropWhile isWhiteSpace (rev (dropWhile isWhiteSpace s)))"

text \<open>
  \<open>toLowerCase\<close> maps code points through the Unicode case table. The table here
  covers Basic Latin and the Latin-1 Supplement, and the two code units outside
  them whose lower-case form contains a Basic Latin letter: U+0130 (capital I with
  dot above, lower case \<open>i\<close> followed by U+0307) and U+212A (Kelvin sign, lower case
  \<open>k\<close>). Every other code unit is left as it is: its lower-case form has no Basic
  Latin letter, so no keyword test below depends on it.
\<close>

definition lowerUnit :: "16 word \<Rightarrow> jsstring" where
  "lowerUnit c =
     (if 0x41 \<le> c \<and> c \<le> 0x5A then [c + 0x20]
      else if 0xC0 \<le> c \<and> c \<le> 0xDE \<and> c \<noteq> 0xD7 then [c + 0x20]
      else if c = 0x0130 then [0x69, 0x0307]
      else if c = 0x212A then [0x6B]
      else [c])"

definition toLowerCase :: "jsstring \<Rightarrow> jsstring" where
  "toLowerCase s = concat (map lowerUnit s)"

text \<open>\<open>s.replace(/[^0-9]/g, '')\<close> keeps the ASCII digits of \<open>s\<close>.\<close>

definition isDigit :: "16 word \<Rightarrow> bool" where
  "isDigit c = (0x30 \<le> c \<and> c \<le> 0x39)"

definition stripNonDigits :: "jsstring \<Rightarrow> jsstring" where
  "stripNonDigits s = filter isDigit s"

text \<open>\<open>s.replace('+', '')\<close> with a string pattern removes the first \<open>+\<close> only.\<close>

fun replaceFirstPlus :: "jsstring \<Rightarrow> jsstring" where
  "replaceFirstPlus [] = []"
| "replaceFirstPlus (c # cs) = (if c = 0x2B then cs else c # replaceFirstPlus cs)"

text \<open>\<open>a || d\<close> on an optional string: \<open>undefined\<close>, \<open>null\<close> and \<open>''\<close> are falsy.\<close>

fun js_or :: "jsstring option \<Rightarrow> jsstring \<Rightarrow> jsstring" where
  "js_or None d = d"
| "js_or (Some s) d = (if s = [] then d else s)"

section \<open>Data of the two programs\<close>

definition BOT_NAME :: jsstring where
  "BOT_NAME = js ''KARL AI ASSISTANCE''"

text \<open>
  An inbound message as the handlers read it. The three optional chains
  \<open>extendedTextMessage?.text\<close>, \<open>imageMessage?.caption\<close> and \<open>videoMessage?.caption\<close>
  are one optional string each.
\<close>

record message_key =
  remoteJid :: "jsstring option"
  fromMe :: bool
  participant :: "jsstring option"

record message_content =
  conversation :: "jsstring option"
  extendedTextMessage_text :: "jsstring option"
  imageMessage_caption :: "jsstring option"
  videoMessage_caption :: "jsstring option"

record wa_message =
  key :: message_key
  message :: "message_content option"
  pushName :: "jsstring option"

text \<open>
  A parsed JSON value (what \<open>express.json()\<close> leaves in \<open>req.body\<close>), and its
  truthiness as \<open>!message\<close> tests it.
\<close>

datatype json =
    JNull
  | JBool bool
  | JNumber real
  | JString jsstring
  | JArray "json list"
  | JObject "(jsstring \<times> json) list"

fun truthy :: "json \<Rightarrow> bool" where
  "truthy JNull = False"
| "truthy (JBool b) = b"
| "truthy (JNumber x) = (x \<noteq> 0)"
| "truthy (JString s) = (s \<noteq> [])"
| "truthy (JArray xs) = True"
| "truthy (JObject fs) = True"

text \<open>
  The payload of \<open>sock.sendMessage\<close>: its \<open>text\<close> field (a string in
  \<open>handleMessage\<close>, the request's \<open>message\<close> value in \<open>sendDirectMessage\<close>), and
  \<open>mentions\<close>, absent unless assigned.
\<close>

record reply_message =
  reply_text :: json
  mentions :: "jsstring option list option"

record pairing_log =
  timestamp :: jsstring
  phone :: jsstring
  code :: jsstring
  status :: jsstring

type_synonym handle = nat

text \<open>
  What the code itself throws: the engine's \<open>TypeError\<close> on a property read of
  \<open>undefined\<close> or \<open>null\<close>, or an error value with its \<open>message\<close> (absent when
  the thrown value has no string message).
\<close>

datatype thrown = TypeError | Error "jsstring option"

text \<open>
  The answers of the collaborators. A failure carries \<open>error.message\<close>. A completion
  carries \<open>choices[0]?.message?.content\<close>; a send resolves to a message whose
  \<open>key.id\<close> is given, or to \<open>undefined\<close>.
\<close>

datatype completion_outcome = Completed "jsstring option" | CompletionFailed "jsstring option"

datatype send_outcome =
  SendResolved "jsstring option" | SendResolvedUndefined | SendFailed "jsstring option"

datatype pairing_outcome = PairingCode jsstring | PairingFailed "jsstring option"

text \<open>
  The environment of one handler run: configuration, the library constant
  \<open>DisconnectReason.loggedOut\<close>, the clock (\<open>new Date().toISOString()\<close> and
  \<open>process.uptime()\<close>), and the collaborators' answers as functions of the
  arguments they are called with.
\<close>

record env =
  PHONE_NUMBER :: jsstring
  DisconnectReason_loggedOut :: int
  now_ISO :: jsstring
  process_uptime :: real
  openai_create :: "jsstring \<Rightarrow> jsstring \<Rightarrow> completion_outcome"
  sock_sendMessage :: "handle \<Rightarrow> jsstring \<Rightarrow> reply_message \<Rightarrow> send_outcome"
  sock_requestPairingCode :: "handle \<Rightarrow> jsstring \<Rightarrow> pairing_outcome"
  creds_registered :: "handle \<Rightarrow> bool"

datatype log_line =
    LogQR
  | LogConnectionClosed "int option"
  | LogLoggedOut
  | LogReconnecting int int
  | LogMaxReconnectAttempts
  | LogConnected
  | LogNotPaired
  | LogSocketNotReady
  | LogPairingCode jsstring jsstring
  | LogPairingError "jsstring option"
  | LogAlreadyPaired
  | LogTryManualPairing
  | LogAIError "jsstring option"
  | LogInbound bool jsstring jsstring jsstring
  | LogReplied jsstring jsstring
  | LogMessageHandlingError thrown
  | LogUnhandledRejection thrown
  | LogReceived jsstring jsstring
  | LogRepliedTo jsstring jsstring

text \<open>
  Everything a handler does to the outside, in order: console lines, the completion
  request (system prompt, user message), the transport's send and pairing request,
  a timer that will call \<open>initialize\<close>, and (in index.js) the direct call of
  \<open>startBot\<close>.
\<close>

datatype effect =
    Log log_line
  | CompletionsCreate jsstring jsstring
  | SendMessage handle jsstring reply_message
  | RequestPairingCode handle jsstring
  | SetTimeoutInitialize int
  | StartBot

record bot_state =
  sock :: "handle option"
  isConnected :: bool
  reconnectAttempts :: int
  maxReconnectAttempts :: int

definition constructor :: bot_state where
  "constructor =
     \<lparr>sock = None, isConnected = False, reconnectAttempts = 0, maxReconnectAttempts = 5\<rparr>"

section \<open>getAIResponse\<close>

definition systemPrompt :: "jsstring \<Rightarrow> jsstring" where
  "systemPrompt context =
     js ''You are '' @ BOT_NAME @ js '', a helpful WhatsApp AI assistant. '' @ [0x0A]
     @ js ''    Keep responses concise (under 150 characters), friendly, and relevant. '' @ [0x0A]
     @ js ''    Context: '' @ context"

definition busyApology :: jsstring where
  "busyApology = 0x23F3 # js '' I'' @ [0x27] @ js ''m busy right now. Please try again in a moment!''"

definition checkupApology :: jsstring where
  "checkupApology = [0xD83D, 0xDD11] @ js '' My AI brain needs a checkup. Try again soon!''"

definition issuesApology :: jsstring where
  "issuesApology = [0xD83E, 0xDD16] @ js '' AI service is having issues. I'' @ [0x27] @ js ''ll be back!''"

text \<open>
  The result is the reply text, or what leaves the function as an exception: inside
  the \<open>catch\<close> block \<open>error.message.includes\<close> is a \<open>TypeError\<close> when the caught
  value has no string message.
\<close>

definition getAIResponse :: "env \<Rightarrow> jsstring \<Rightarrow> jsstring \<Rightarrow> (thrown + jsstring) \<times> effect list" where
  "getAIResponse e msg context =
     (let prompt = systemPrompt context; call = CompletionsCreate prompt msg in
      case openai_create e prompt msg of
        Completed content \<Rightarrow>
          (Inr (js_or (map_option trim content) (js ''Sorry, I could not process that request.'')),
           [call])
      | CompletionFailed m \<Rightarrow>
          (case m of
             None \<Rightarrow> (Inl TypeError, [call, Log (LogAIError m)])
           | Some errmsg \<Rightarrow>
               (Inr (if js_includes errmsg (js ''rate limit'') then busyApology
                     else if js_includes errmsg (js ''invalid'') then checkupApology
                     else issuesApology),
                [call, Log (LogAIError m)])))"

section \<open>WhatsAppBot.handleMessage\<close>

definition triggers :: "jsstring \<Rightarrow> bool list" where
  "triggers lowerText =
     [js_includes lowerText (js ''karl''),
      js_includes lowerText (js ''@karl''),
      startsWith lowerText (js ''karl ''),
      startsWith lowerText (js ''karl,''),
      js_includes lowerText (js ''assistant''),
      js_includes lowerText (js ''ai '')]"

definition extractText :: "message_content \<Rightarrow> jsstring" where
  "extractText m =
     js_or (conversation m)
       (js_or (extendedTextMessage_text m)
          (js_or (imageMessage_caption m)
             (js_or (videoMessage_caption m) [])))"

definition chatContext :: "bool \<Rightarrow> jsstring \<Rightarrow> jsstring" where
  "chatContext isGroup name =
     (if isGroup then js ''Group chat with '' @ name @ js ''. Keep it appropriate for groups.''
      else js ''Direct message from '' @ name @ js ''.'')"

text \<open>
  The whole method body sits in \<open>try\<close>/\<open>catch\<close>: an exception ends the run with a
  console line. \<open>from.endsWith\<close> throws when the message has no \<open>remoteJid\<close>, and
  \<open>this.sock.sendMessage\<close> throws when the bot holds no socket.
\<close>

definition handleMessage :: "env \<Rightarrow> bot_state \<Rightarrow> wa_message \<Rightarrow> effect list" where
  "handleMessage e this msg =
     (case message msg of
        None \<Rightarrow> []
      | Some m \<Rightarrow>
         (if fromMe (key msg) then []
          else
           (case remoteJid (key msg) of
              None \<Rightarrow> [Log (LogMessageHandlingError TypeError)]
            | Some from \<Rightarrow>
               (let isGroup = endsWith from (js ''@g.us'');
                    name = js_or (pushName msg) (js ''User'');
                    txt = extractText m
                in if txt = [] \<or> length txt < 2 then []
                   else
                    (let lowerText = trim (toLowerCase txt) in
                     if \<not> list_ex (\<lambda>b. b) (triggers lowerText) then []
                     else
                      (let context = chatContext isGroup name;
                           inbound = Log (LogInbound isGroup name from txt)
                       in
                        (case getAIResponse e txt context of
                           (Inl err, fx) \<Rightarrow>
                             inbound # fx @ [Log (LogMessageHandlingError err)]
                         | (Inr aiReply, fx) \<Rightarrow>
                            (let replyMessage =
                                   \<lparr>reply_text = JString (BOT_NAME @ js '': '' @ aiReply),
                                    mentions =
                                      (if isGroup \<and> (js_includes lowerText (js ''@karl'')
                                                     \<or> js_includes lowerText (js ''karl''))
                                       then Some [participant (key msg)] else None)\<rparr>
                             in
                              (case sock this of
                                 None \<Rightarrow>
                                   inbound # fx @ [Log (LogMessageHandlingError TypeError)]
                               | Some h \<Rightarrow>
                                   inbound # fx @ [SendMessage h from replyMessage]
                                   @ (case sock_sendMessage e h from replyMessage of
                                        SendFailed em \<Rightarrow>
                                          [Log (LogMessageHandlingError (Error em))]
                                      | SendResolved i \<Rightarrow> [Log (LogReplied name aiReply)]
                                      | SendResolvedUndefined \<Rightarrow>
                                          [Log (LogReplied name aiReply)]))))))))))"

text \<open>The \<open>messages.upsert\<close> listener of \<open>initialize\<close>.\<close>

definition messages_upsert :: "env \<Rightarrow> bot_state \<Rightarrow> jsstring \<Rightarrow> wa_message list \<Rightarrow> effect list" where
  "messages_upsert e this type msgs =
     (case msgs of
        [] \<Rightarrow> []
      | m # _ \<Rightarrow> if type = js ''notify'' then handleMessage e this m else [])"

section \<open>WhatsAppBot.requestPairingCode\<close>

text \<open>
  The result is the exception that leaves the method, if any, and the content of
  \<open>pairing_log.json\<close> afterwards (\<open>None\<close> while the file does not exist). In the
  \<open>catch\<close> block \<open>error.message.includes\<close> is a \<open>TypeError\<close> when the caught
  value has no string message. The write of the file is taken to succeed: the
  directory is made at start-up.
\<close>

definition requestPairingCode ::
  "env \<Rightarrow> bot_state \<Rightarrow> pairing_log option \<Rightarrow> (thrown option \<times> pairing_log option) \<times> effect list" where
  "requestPairingCode e this file =
     (case sock this of
        None \<Rightarrow> ((None, file), [Log LogSocketNotReady])
      | Some h \<Rightarrow>
         (let cleanPhone = stripNonDigits (PHONE_NUMBER e);
              call = RequestPairingCode h cleanPhone
          in
           (case sock_requestPairingCode e h cleanPhone of
              PairingCode c \<Rightarrow>
                ((None,
                  Some \<lparr>timestamp = now_ISO e, phone = PHONE_NUMBER e, code = c,
                        status = js ''generated''\<rparr>),
                 [call, Log (LogPairingCode (PHONE_NUMBER e) c)])
            | PairingFailed m \<Rightarrow>
               (case m of
                  None \<Rightarrow> ((Some TypeError, file), [call, Log (LogPairingError m)])
                | Some errmsg \<Rightarrow>
                    ((None, file),
                     [call, Log (LogPairingError m),
                      Log (if js_includes errmsg (js ''already paired'')
                              \<or> js_includes errmsg (js ''authenticated'')
                           then LogAlreadyPaired else LogTryManualPairing)])))))"

section \<open>WhatsAppBot.initialize and its connection.update listener\<close>

datatype socket_outcome = SocketMade handle | SetupFailed "jsstring option"

definition initialize :: "bot_state \<Rightarrow> socket_outcome \<Rightarrow> thrown option \<times> bot_state" where
  "initialize this made =
     (case made of
        SocketMade h \<Rightarrow> (None, this\<lparr>sock := Some h\<rparr>)
      | SetupFailed m \<Rightarrow> (Some (Error m), this))"

datatype connection_state = ConnClose | ConnOpen | ConnConnecting

text \<open>
  The fields the listener reads from an update; \<open>statusCode\<close> stands for
  \<open>lastDisconnect?.error?.output?.statusCode\<close>.
\<close>

record connection_update =
  connection :: "connection_state option"
  statusCode :: "int option"
  qr :: "jsstring option"

text \<open>
  The listener is \<open>async\<close> with no \<open>try\<close>: an exception inside it is an unhandled
  rejection, which the process logs. All assignments to the bot's fields come before
  the first \<open>await\<close>, so the listener is one step on the state.
\<close>

definition unhandled :: "thrown option \<Rightarrow> effect list" where
  "unhandled err = (case err of None \<Rightarrow> [] | Some t \<Rightarrow> [Log (LogUnhandledRejection t)])"

definition on_connection_update ::
  "env \<Rightarrow> bot_state \<Rightarrow> pairing_log option \<Rightarrow> connection_update
     \<Rightarrow> (bot_state \<times> pairing_log option) \<times> effect list" where
  "on_connection_update e this file u =
     (let qrfx = (if js_or (qr u) [] \<noteq> [] then [Log LogQR] else []) in
      (case connection u of
         Some ConnClose \<Rightarrow>
          (let this1 = this\<lparr>isConnected := False\<rparr>;
               closed = Log (LogConnectionClosed (statusCode u))
           in if statusCode u = Some (DisconnectReason_loggedOut e) then
                (case requestPairingCode e this1 file of
                   ((err, file'), fx) \<Rightarrow>
                     ((this1, file'), qrfx @ [closed, Log LogLoggedOut] @ fx @ unhandled err))
              else if reconnectAttempts this1 < maxReconnectAttempts this1 then
                (let this2 = this1\<lparr>reconnectAttempts := reconnectAttempts this1 + 1\<rparr> in
                 ((this2, file),
                  qrfx @ [closed,
                          Log (LogReconnecting (reconnectAttempts this2) (maxReconnectAttempts this2)),
                          SetTimeoutInitialize (5000 * reconnectAttempts this2)]))
              else ((this1, file), qrfx @ [closed, Log LogMaxReconnectAttempts]))
       | Some ConnOpen \<Rightarrow>
          (let this1 = this\<lparr>isConnected := True, reconnectAttempts := 0\<rparr> in
           (case sock this1 of
              None \<Rightarrow>
                ((this1, file), qrfx @ [Log LogConnected, Log (LogUnhandledRejection TypeError)])
            | Some h \<Rightarrow>
                if \<not> creds_registered e h then
                  (case requestPairingCode e this1 file of
                     ((err, file'), fx) \<Rightarrow>
                       ((this1, file'),
                        qrfx @ [Log LogConnected, Log LogNotPaired] @ fx @ unhandled err))
                else ((this1, file), qrfx @ [Log LogConnected])))
       | Some ConnConnecting \<Rightarrow> ((this, file), qrfx)
       | None \<Rightarrow> ((this, file), qrfx)))"

section \<open>getStatus, sendDirectMessage and POST /send/:number\<close>

record bot_status =
  status_name :: jsstring
  status_connected :: bool
  status_phone :: jsstring
  status_reconnectAttempts :: int
  status_timestamp :: jsstring
  status_uptime :: real

definition getStatus :: "env \<Rightarrow> bot_state \<Rightarrow> bot_status" where
  "getStatus e this =
     \<lparr>status_name = BOT_NAME, status_connected = isConnected this,
      status_phone = PHONE_NUMBER e, status_reconnectAttempts = reconnectAttempts this,
      status_timestamp = now_ISO e, status_uptime = process_uptime e\<rparr>"

definition sendDirectMessage ::
  "env \<Rightarrow> bot_state \<Rightarrow> jsstring \<Rightarrow> json \<Rightarrow> (thrown + send_outcome) \<times> effect list" where
  "sendDirectMessage e this to msg =
     (if \<not> isConnected this \<or> sock this = None then
        (Inl (Error (Some (js ''Bot not connected''))), [])
      else
       (case sock this of
          None \<Rightarrow> (Inl TypeError, [])
        | Some h \<Rightarrow>
           (let payload = \<lparr>reply_text = msg, mentions = None\<rparr>;
                call = SendMessage h to payload
            in
             (case sock_sendMessage e h to payload of
                SendFailed m \<Rightarrow> (Inl (Error m), [call])
              | SendResolved i \<Rightarrow> (Inr (SendResolved i), [call])
              | SendResolvedUndefined \<Rightarrow> (Inr SendResolvedUndefined, [call])))))"

text \<open>
  The request as the route reads it: the \<open>:number\<close> parameter and the parsed body,
  taken to be an object as the two body parsers leave it. The response is the
  status and the JSON body: \<open>{error}\<close>,
  \<open>{success: true, message: 'Message sent', to, id}\<close> or
  \<open>{success: false, error: error.message}\<close>.
\<close>

record request =
  params_number :: jsstring
  body :: "jsstring \<rightharpoonup> json"

datatype response_json =
    JsonError jsstring
  | JsonSent jsstring "jsstring option"
  | JsonFailure thrown

record response =
  status_code :: nat
  json_body :: response_json

definition post_send :: "env \<Rightarrow> bot_state \<Rightarrow> request \<Rightarrow> response \<times> effect list" where
  "post_send e this req =
     (case body req (js ''message'') of
        None \<Rightarrow> (\<lparr>status_code = 400, json_body = JsonError (js ''Message required'')\<rparr>, [])
      | Some msg \<Rightarrow>
         (if \<not> truthy msg then
            (\<lparr>status_code = 400, json_body = JsonError (js ''Message required'')\<rparr>, [])
          else
           (let cleanNumber = stripNonDigits (params_number req) @ js ''@s.whatsapp.net'' in
            (case sendDirectMessage e this cleanNumber msg of
               (Inl err, fx) \<Rightarrow> (\<lparr>status_code = 500, json_body = JsonFailure err\<rparr>, fx)
             | (Inr (SendResolved i), fx) \<Rightarrow>
                 (\<lparr>status_code = 200, json_body = JsonSent cleanNumber i\<rparr>, fx)
             | (Inr SendResolvedUndefined, fx) \<Rightarrow>
                 (\<lparr>status_code = 500, json_body = JsonFailure TypeError\<rparr>, fx)
             | (Inr (SendFailed m), fx) \<Rightarrow>
                 (\<lparr>status_code = 500, json_body = JsonFailure (Error m)\<rparr>, fx)))))"

section \<open>The bot as a system of events\<close>

text \<open>
  The state of the process is the global \<open>bot\<close> object and the file
  \<open>pairing_log.json\<close>. An event is one call into the bot: \<open>initialize\<close> (start-up,
  the reconnect timer, POST /start), a socket's \<open>connection.update\<close> or
  \<open>messages.upsert\<close> (such listeners exist only once \<open>initialize\<close> has made a
  socket), \<open>requestPairingCode\<close> (the auto-pairing timer), POST /pair (\<open>initialize\<close>
  then \<open>requestPairingCode\<close>), POST /send/:number, and \<open>getStatus\<close> (GET /status,
  GET /health). Each event comes with the environment it runs in.
\<close>

record system =
  bot_instance :: bot_state
  pairing_log_json :: "pairing_log option"

text \<open>At start-up the bot is freshly constructed; the file may be left from an earlier run.\<close>

definition start :: "pairing_log option \<Rightarrow> system" where
  "start file = \<lparr>bot_instance = constructor, pairing_log_json = file\<rparr>"

datatype event =
    Initialize socket_outcome
  | ConnectionUpdate connection_update
  | MessagesUpsert jsstring "wa_message list"
  | RequestPairing
  | PostPair socket_outcome
  | PostSend request
  | GetStatus

definition step :: "system \<Rightarrow> env \<times> event \<Rightarrow> system \<times> effect list" where
  "step s ee =
     (case ee of (e, ev) \<Rightarrow>
       (case ev of
          Initialize made \<Rightarrow>
            (case initialize (bot_instance s) made of
               (err, this') \<Rightarrow> (s\<lparr>bot_instance := this'\<rparr>, []))
        | ConnectionUpdate u \<Rightarrow>
            (if sock (bot_instance s) = None then (s, [])
             else
              (case on_connection_update e (bot_instance s) (pairing_log_json s) u of
                 ((this', file'), fx) \<Rightarrow>
                   (\<lparr>bot_instance = this', pairing_log_json = file'\<rparr>, fx)))
        | MessagesUpsert type msgs \<Rightarrow>
            (if sock (bot_instance s) = None then (s, [])
             else (s, messages_upsert e (bot_instance s) type msgs))
        | RequestPairing \<Rightarrow>
            (case requestPairingCode e (bot_instance s) (pairing_log_json s) of
               ((err, file'), fx) \<Rightarrow> (s\<lparr>pairing_log_json := file'\<rparr>, fx @ unhandled err))
        | PostPair made \<Rightarrow>
            (case initialize (bot_instance s) made of
               (Some err, this') \<Rightarrow> (s\<lparr>bot_instance := this'\<rparr>, [])
             | (None, this') \<Rightarrow>
                (case requestPairingCode e this' (pairing_log_json s) of
                   ((err, file'), fx) \<Rightarrow>
                     (\<lparr>bot_instance = this', pairing_log_json = file'\<rparr>, fx)))
        | PostSend req \<Rightarrow> (s, snd (post_send e (bot_instance s) req))
        | GetStatus \<Rightarrow> (s, [])))"

fun run :: "system \<Rightarrow> (env \<times> event) list \<Rightarrow> system \<times> effect list" where
  "run s [] = (s, [])"
| "run s (ee # rest) =
     (case step s ee of (s', fx) \<Rightarrow> (case run s' rest of (s'', fx') \<Rightarrow> (s'', fx @ fx')))"

section \<open>index.js\<close>

text \<open>
  The second program has no bot object: \<open>startBot\<close> makes a socket and its
  listeners close over it. The listeners are \<open>async\<close> with no \<open>try\<close>, so an
  exception is an unhandled rejection, which the process logs.
\<close>

definition index_systemPrompt :: jsstring where
  "index_systemPrompt =
     js ''You are KARL AI ASSISTANCE, a helpful WhatsApp bot. Respond concisely and friendly.''"

definition index_getAIResponse :: "env \<Rightarrow> jsstring \<Rightarrow> jsstring \<times> effect list" where
  "index_getAIResponse e msg =
     (let call = CompletionsCreate index_systemPrompt msg in
      (case openai_create e index_systemPrompt msg of
         Completed content \<Rightarrow> (js_or content (js ''Sorry, I could not process that.''), [call])
       | CompletionFailed m \<Rightarrow>
           (js ''Sorry, AI is having issues. Try again!'', [call, Log (LogAIError m)])))"

definition startBot_trigger :: "jsstring \<Rightarrow> bool" where
  "startBot_trigger txt =
     (js_includes (toLowerCase txt) (js ''karl'') \<or> js_includes txt (js ''@karl''))"

definition startBot_messages_upsert :: "env \<Rightarrow> handle \<Rightarrow> wa_message list \<Rightarrow> effect list" where
  "startBot_messages_upsert e h msgs =
     (case msgs of
        [] \<Rightarrow> [Log (LogUnhandledRejection TypeError)]
      | msg # _ \<Rightarrow>
         (case message msg of
            None \<Rightarrow> []
          | Some m \<Rightarrow>
             (if fromMe (key msg) then []
              else
               (case remoteJid (key msg) of
                  None \<Rightarrow> [Log (LogUnhandledRejection TypeError)]
                | Some from \<Rightarrow>
                   (let isGroup = endsWith from (js ''@g.us'');
                        txt = js_or (conversation m) (js_or (extendedTextMessage_text m) [])
                    in if startBot_trigger txt then
                        (case index_getAIResponse e
                                (js ''User message: '' @ txt @ [0x0A] @ js ''Context: ''
                                 @ (if isGroup then js ''Group chat'' else js ''DM'')) of
                           (aiReply, fx) \<Rightarrow>
                            (let payload =
                                   \<lparr>reply_text = JString (BOT_NAME @ js '': '' @ aiReply),
                                    mentions = None\<rparr>
                             in Log (LogReceived from txt) # fx
                                @ [SendMessage h from payload]
                                @ (case sock_sendMessage e h from payload of
                                     SendFailed em \<Rightarrow> [Log (LogUnhandledRejection (Error em))]
                                   | SendResolved i \<Rightarrow> [Log (LogRepliedTo from aiReply)]
                                   | SendResolvedUndefined \<Rightarrow> [Log (LogRepliedTo from aiReply)])))
                       else [])))))"

definition startBot_connection_update :: "env \<Rightarrow> connection_update \<Rightarrow> effect list" where
  "startBot_connection_update e u =
     (case connection u of
        Some ConnClose \<Rightarrow>
         (let shouldReconnect = (statusCode u \<noteq> Some (DisconnectReason_loggedOut e)) in
          Log (LogConnectionClosed (statusCode u)) # (if shouldReconnect then [StartBot] else []))
      | Some ConnOpen \<Rightarrow> [Log LogConnected]
      | Some ConnConnecting \<Rightarrow> []
      | None \<Rightarrow> [])"

text \<open>\<open>generatePairing\<close> is defined inside \<open>startBot\<close>; its only call is commented out.\<close>

definition generatePairing :: "env \<Rightarrow> handle \<Rightarrow> effect list" where
  "generatePairing e h =
     (let arg = replaceFirstPlus (PHONE_NUMBER e) in
      (case sock_requestPairingCode e h arg of
         PairingCode c \<Rightarrow> [RequestPairingCode h arg, Log (LogPairingCode (PHONE_NUMBER e) c)]
       | PairingFailed m \<Rightarrow> [RequestPairingCode h arg, Log (LogPairingError m)]))"

section \<open>Reading a trace\<close>

fun isSend :: "effect \<Rightarrow> bool" where
  "isSend (SendMessage h to payload) = True"
| "isSend other = False"

fun isCompletion :: "effect \<Rightarrow> bool" where
  "isCompletion (CompletionsCreate p m) = True"
| "isCompletion other = False"

fun isTimer :: "effect \<Rightarrow> bool" where
  "isTimer (SetTimeoutInitialize d) = True"
| "isTimer StartBot = True"
| "isTimer other = False"

definition sends :: "effect list \<Rightarrow> effect list" where
  "sends fx = filter isSend fx"

definition completions :: "effect list \<Rightarrow> effect list" where
  "completions fx = filter isCompletion fx"

definition timers :: "effect list \<Rightarrow> effect list" where
  "timers fx = filter isTimer fx"

fun isPairingRequest :: "effect \<Rightarrow> bool" where
  "isPairingRequest (RequestPairingCode h p) = True"
| "isPairingRequest other = False"

definition pairingRequests :: "effect list \<Rightarrow> effect list" where
  "pairingRequests fx = filter isPairingRequest fx"

definition fatalReports :: "effect list \<Rightarrow> nat" where
  "fatalReports fx = length (filter (\<lambda>x. x = Log LogMaxReconnectAttempts) fx)"

section \<open>Notions of the specification\<close>

text \<open>
  The simplified trigger predicate, in the specification's words: the lower-cased,
  trimmed text contains \<open>karl\<close>, or \<open>assistant\<close>, or \<open>ai\<close> followed by a space.
\<close>

definition simplifiedTrigger :: "jsstring \<Rightarrow> bool" where
  "simplifiedTrigger lowerText =
     (sublist (js ''karl'') lowerText \<or> sublist (js ''assistant'') lowerText
      \<or> sublist (js ''ai '') lowerText)"

text \<open>
  The text of an inbound event is absent or shorter than two code units: there is no
  message content, or the first non-empty of the four bodies is that short.
\<close>

definition shortOrAbsentText :: "wa_message \<Rightarrow> bool" where
  "shortOrAbsentText msg =
     (case message msg of None \<Rightarrow> True | Some m \<Rightarrow> length (extractText m) < 2)"

text \<open>
  A triggering inbound message: it has content, is not the bot's own, names its
  conversation, and its text has two code units or more and satisfies a trigger.
\<close>

definition triggering :: "wa_message \<Rightarrow> bool" where
  "triggering msg =
     (case message msg of
        None \<Rightarrow> False
      | Some m \<Rightarrow>
          \<not> fromMe (key msg) \<and> remoteJid (key msg) \<noteq> None \<and> 2 \<le> length (extractText m)
          \<and> list_ex (\<lambda>b. b) (triggers (trim (toLowerCase (extractText m)))))"

text \<open>
  A group message is one whose conversation id ends in \<open>@g.us\<close>. A message
  explicitly mentions the bot when its lower-cased, trimmed text contains \<open>@karl\<close>
  or \<open>karl\<close>: the specification's design notes name these two as the matches
  that attach a mention.
\<close>

definition groupMessage :: "wa_message \<Rightarrow> bool" where
  "groupMessage msg =
     (case remoteJid (key msg) of None \<Rightarrow> False | Some from \<Rightarrow> endsWith from (js ''@g.us''))"

definition mentionsBot :: "message_content \<Rightarrow> bool" where
  "mentionsBot m =
     (sublist (js ''@karl'') (trim (toLowerCase (extractText m)))
      \<or> sublist (js ''karl'') (trim (toLowerCase (extractText m))))"

text \<open>
  A close event with a reason other than logged-out, and a run of such events
  delivered to the bot one after the other.
\<close>

definition otherClose :: "env \<times> connection_update \<Rightarrow> bool" where
  "otherClose eu =
     (case eu of (e, u) \<Rightarrow>
        connection u = Some ConnClose \<and> statusCode u \<noteq> Some (DisconnectReason_loggedOut e))"

definition closeEvents :: "(env \<times> connection_update) list \<Rightarrow> (env \<times> event) list" where
  "closeEvents eus = map (\<lambda>(e, u). (e, ConnectionUpdate u)) eus"

text \<open>
  The invariant of the reconnect counter, and what one event does to the counter in
  the words of the claim: an open event resets it, a close event with a reason
  other than logged-out increments it while it is below the maximum, and nothing
  else changes it.
\<close>

definition attemptsInRange :: "bot_state \<Rightarrow> bool" where
  "attemptsInRange this =
     (0 \<le> reconnectAttempts this \<and> reconnectAttempts this \<le> maxReconnectAttempts this
      \<and> maxReconnectAttempts this = 5)"

definition attemptsAfter :: "system \<Rightarrow> env \<times> event \<Rightarrow> int" where
  "attemptsAfter s ee =
     (let this = bot_instance s; r = reconnectAttempts this in
      case ee of
        (e, ConnectionUpdate u) \<Rightarrow>
          if sock this = None then r
          else if connection u = Some ConnOpen then 0
          else if connection u = Some ConnClose
                  \<and> statusCode u \<noteq> Some (DisconnectReason_loggedOut e)
                  \<and> r < maxReconnectAttempts this then r + 1
          else r
      | (e, other) \<Rightarrow> r)"

section \<open>Example inputs\<close>

definition exampleEnv :: "completion_outcome \<Rightarrow> env" where
  "exampleEnv answer =
     \<lparr>PHONE_NUMBER = js ''+263 777-965084'', DisconnectReason_loggedOut = 401,
      now_ISO = js ''2025-01-01T00:00:00.000Z'', process_uptime = 90,
      openai_create = (\<lambda>p u. answer),
      sock_sendMessage = (\<lambda>h to payload. SendResolved (Some (js ''3EB0''))),
      sock_requestPairingCode = (\<lambda>h p. PairingCode (js ''ABCD1234'')),
      creds_registered = (\<lambda>h. True)\<rparr>"

definition exampleMessage :: "jsstring \<Rightarrow> bool \<Rightarrow> jsstring \<Rightarrow> wa_message" where
  "exampleMessage jid own txt =
     \<lparr>key = \<lparr>remoteJid = Some jid, fromMe = own,
             participant = Some (js ''263771234567@s.whatsapp.net'')\<rparr>,
      message = Some \<lparr>conversation = Some txt, extendedTextMessage_text = None,
                      imageMessage_caption = None, videoMessage_caption = None\<rparr>,
      pushName = Some (js ''Tariro'')\<rparr>"

definition connectedBot :: bot_state where
  "connectedBot = constructor\<lparr>sock := Some 1, isConnected := True\<rparr>"

definition readySystem :: system where
  "readySystem = \<lparr>bot_instance = constructor\<lparr>sock := Some 1\<rparr>, pairing_log_json = None\<rparr>"

definition exampleClose :: "int \<Rightarrow> connection_update" where
  "exampleClose c = \<lparr>connection = Some ConnClose, statusCode = Some c, qr = None\<rparr>"

definition exampleOpen :: connection_update where
  "exampleOpen = \<lparr>connection = Some ConnOpen, statusCode = None, qr = None\<rparr>"

definition exampleRequest :: "jsstring \<Rightarrow> json \<Rightarrow> request" where
  "exampleRequest number msg = \<lparr>params_number = number, body = [js ''message'' \<mapsto> msg]\<rparr>"

definition examplePairingLog :: pairing_log where
  "examplePairingLog =
     \<lparr>timestamp = js ''2024-12-31T23:59:00.000Z'', phone = js ''+263 777-965084'',
      code = js ''ZZZZ9999'', status = js ''generated''\<rparr>"

section \<open>Facts about the string operations\<close>

lemma startsWith_prefix: "startsWith s p = prefix p s"
  by (induction s p rule: startsWith.induct) auto

lemma js_includes_sublist: "js_includes s p = sublist p s"
proof (induction s)
  case Nil
  show ?case by (cases p) (simp_all add: startsWith_prefix)
next
  case (Cons c cs)
  show ?case
  proof (cases p)
    case Nil
    then show ?thesis by simp
  next
    case (Cons q qs)
    with Cons.IH show ?thesis
      by (simp only: js_includes.simps startsWith_prefix sublist_code)
  qed
qed

lemma toLowerCase_append: "toLowerCase (a @ b) = toLowerCase a @ toLowerCase b"
  by (simp add: toLowerCase_def)

lemma sublist_toLowerCase: "sublist p s \<Longrightarrow> sublist (toLowerCase p) (toLowerCase s)"
  unfolding sublist_def by (metis toLowerCase_append)

lemma length_lowerUnit: "length (lowerUnit c) \<le> 2"
  by (simp add: lowerUnit_def)

lemma length_toLowerCase: "length (toLowerCase s) \<le> 2 * length s"
proof (induction s)
  case Nil
  show ?case by (simp add: toLowerCase_def)
next
  case (Cons c cs)
  have "toLowerCase (c # cs) = lowerUnit c @ toLowerCase cs"
    by (simp add: toLowerCase_def)
  with Cons length_lowerUnit [of c] show ?case by simp
qed

text \<open>Trimming keeps every occurrence of a pattern that neither starts nor ends in white space.\<close>

lemma sublist_dropWhile:
  assumes "sublist p s" and "p \<noteq> []" and "\<not> P (hd p)"
  shows "sublist p (dropWhile P s)"
proof -
  from assms(1) obtain us vs where s: "s = us @ p @ vs"
    by (auto simp: sublist_def)
  from assms(2,3) have keep: "dropWhile P (p @ vs) = p @ vs"
    by (cases p) simp_all
  show ?thesis
  proof (cases "\<forall>x\<in>set us. P x")
    case True
    then have "dropWhile P s = p @ vs"
      using keep by (simp add: s dropWhile_append)
    then show ?thesis by (simp add: sublist_def) (metis append_Nil)
  next
    case False
    then have "dropWhile P s = dropWhile P us @ p @ vs"
      by (auto simp add: s dropWhile_append)
    then show ?thesis by (auto simp: sublist_def)
  qed
qed

lemma sublist_trim:
  assumes "sublist p s" and "p \<noteq> []"
    and "\<not> isWhiteSpace (hd p)" and "\<not> isWhiteSpace (last p)"
  shows "sublist p (trim s)"
proof -
  have "sublist p (dropWhile isWhiteSpace s)"
    using assms(1-3) by (rule sublist_dropWhile)
  then have "sublist (rev p) (rev (dropWhile isWhiteSpace s))"
    by simp
  moreover have "rev p \<noteq> []" "\<not> isWhiteSpace (hd (rev p))"
    using assms(2,4) by (simp_all add: hd_rev)
  ultimately have
    "sublist (rev p) (dropWhile isWhiteSpace (rev (dropWhile isWhiteSpace s)))"
    by (rule sublist_dropWhile)
  then have
    "sublist (rev (rev p)) (rev (dropWhile isWhiteSpace (rev (dropWhile isWhiteSpace s))))"
    by (simp only: sublist_rev)
  then show ?thesis by (simp add: trim_def)
qed

lemma trim_sublist: "sublist (trim s) s"
proof -
  have "suffix (dropWhile isWhiteSpace (rev (dropWhile isWhiteSpace s)))
          (rev (dropWhile isWhiteSpace s))"
    by (rule suffix_dropWhile)
  then have "prefix (trim s) (dropWhile isWhiteSpace s)"
    by (simp add: trim_def suffix_to_prefix)
  moreover have "suffix (dropWhile isWhiteSpace s) s"
    by (rule suffix_dropWhile)
  ultimately show ?thesis
    by (meson prefix_imp_sublist suffix_imp_sublist sublist_order.order_trans)
qed

section \<open>Facts about the keywords\<close>

lemma karl_in_at_karl: "sublist (js ''karl'') (js ''@karl'')"
  by (simp add: js_includes_sublist [symmetric] js_def)

lemma karl_in_karl_space: "sublist (js ''karl'') (js ''karl '')"
  by (simp add: js_includes_sublist [symmetric] js_def)

lemma karl_in_karl_comma: "sublist (js ''karl'') (js ''karl,'')"
  by (simp add: js_includes_sublist [symmetric] js_def)

lemma at_karl_imp_karl: "js_includes s (js ''@karl'') \<Longrightarrow> js_includes s (js ''karl'')"
  unfolding js_includes_sublist using karl_in_at_karl sublist_order.order_trans by blast

lemma karl_space_imp_karl: "startsWith s (js ''karl '') \<Longrightarrow> js_includes s (js ''karl'')"
  unfolding js_includes_sublist startsWith_prefix
  using karl_in_karl_space prefix_imp_sublist sublist_order.order_trans by blast

lemma karl_comma_imp_karl: "startsWith s (js ''karl,'') \<Longrightarrow> js_includes s (js ''karl'')"
  unfolding js_includes_sublist startsWith_prefix
  using karl_in_karl_comma prefix_imp_sublist sublist_order.order_trans by blast

lemma karl_ends:
  "js ''karl'' \<noteq> [] \<and> \<not> isWhiteSpace (hd (js ''karl'')) \<and> \<not> isWhiteSpace (last (js ''karl''))"
  by (simp add: js_def isWhiteSpace_def)

lemma karl_trim: "js_includes (trim s) (js ''karl'') = js_includes s (js ''karl'')"
  unfolding js_includes_sublist
  using sublist_trim [of "js ''karl''" s] karl_ends trim_sublist [of s] sublist_order.order_trans
  by blast

lemma toLowerCase_at_karl: "toLowerCase (js ''@karl'') = js ''@karl''"
  by (simp add: toLowerCase_def js_def lowerUnit_def)

lemma startBot_trigger_iff: "startBot_trigger txt = js_includes (toLowerCase txt) (js ''karl'')"
proof -
  have "js_includes (toLowerCase txt) (js ''karl'')" if "js_includes txt (js ''@karl'')"
  proof -
    from that have "sublist (toLowerCase (js ''@karl'')) (toLowerCase txt)"
      by (simp add: js_includes_sublist sublist_toLowerCase)
    then show ?thesis
      by (simp only: toLowerCase_at_karl js_includes_sublist [symmetric]) (rule at_karl_imp_karl)
  qed
  then show ?thesis by (auto simp: startBot_trigger_def)
qed

section \<open>The trigger predicate\<close>

text \<open>
  Claim C1. The trigger predicate of \<open>handleMessage\<close> is true whenever the
  lower-cased, trimmed text contains \<open>karl\<close>; in particular whenever the text
  contains, anywhere, a run of code units whose lower case is \<open>karl\<close>. It is false
  when the lower-cased, trimmed text contains none of \<open>karl\<close>, \<open>@karl\<close>,
  \<open>assistant\<close>, \<open>ai\<close> followed by a space, and starts with neither \<open>karl\<close>
  followed by a space nor \<open>karl,\<close>; in particular when the lower-cased text,
  before trimming, contains none of \<open>karl\<close>, \<open>assistant\<close> and \<open>ai\<close> followed
  by a space. The trigger of index.js is true when the lower-cased text contains
  \<open>karl\<close> and false otherwise.
\<close>

theorem C1_trigger_predicate:
  "(js_includes (trim (toLowerCase txt)) (js ''karl'')
      \<longrightarrow> list_ex (\<lambda>b. b) (triggers (trim (toLowerCase txt))))
   \<and> (toLowerCase w = js ''karl''
      \<longrightarrow> list_ex (\<lambda>b. b) (triggers (trim (toLowerCase (us @ w @ vs)))))
   \<and> (\<not> js_includes (trim (toLowerCase txt)) (js ''karl'')
      \<and> \<not> js_includes (trim (toLowerCase txt)) (js ''@karl'')
      \<and> \<not> startsWith (trim (toLowerCase txt)) (js ''karl '')
      \<and> \<not> startsWith (trim (toLowerCase txt)) (js ''karl,'')
      \<and> \<not> js_includes (trim (toLowerCase txt)) (js ''assistant'')
      \<and> \<not> js_includes (trim (toLowerCase txt)) (js ''ai '')
      \<longrightarrow> \<not> list_ex (\<lambda>b. b) (triggers (trim (toLowerCase txt))))
   \<and> (\<not> sublist (js ''karl'') (toLowerCase txt)
      \<and> \<not> sublist (js ''assistant'') (toLowerCase txt)
      \<and> \<not> sublist (js ''ai '') (toLowerCase txt)
      \<longrightarrow> \<not> list_ex (\<lambda>b. b) (triggers (trim (toLowerCase txt))))
   \<and> (js_includes (toLowerCase txt) (js ''karl'') \<longrightarrow> startBot_trigger txt)
   \<and> (\<not> js_includes (toLowerCase txt) (js ''karl'') \<longrightarrow> \<not> startBot_trigger txt)"
proof -
  have a: "list_ex (\<lambda>b. b) (triggers s)" if "js_includes s (js ''karl'')" for s
    using that by (simp add: triggers_def)
  have b: "js_includes (trim (toLowerCase (us @ w @ vs))) (js ''karl'')"
    if "toLowerCase w = js ''karl''"
  proof -
    have "sublist (toLowerCase w) (toLowerCase (us @ w @ vs))"
      by (rule sublist_toLowerCase) (auto simp: sublist_def)
    with that have "js_includes (toLowerCase (us @ w @ vs)) (js ''karl'')"
      by (simp add: js_includes_sublist)
    then show ?thesis by (simp only: karl_trim)
  qed
  have c: "\<not> list_ex (\<lambda>b. b) (triggers s)"
    if "\<not> js_includes s (js ''karl'') \<and> \<not> js_includes s (js ''@karl'')
        \<and> \<not> startsWith s (js ''karl '') \<and> \<not> startsWith s (js ''karl,'')
        \<and> \<not> js_includes s (js ''assistant'') \<and> \<not> js_includes s (js ''ai '')" for s
    using that by (simp add: triggers_def)
  have d: "\<not> list_ex (\<lambda>b. b) (triggers (trim (toLowerCase txt)))"
    if none: "\<not> sublist (js ''karl'') (toLowerCase txt)
        \<and> \<not> sublist (js ''assistant'') (toLowerCase txt)
        \<and> \<not> sublist (js ''ai '') (toLowerCase txt)"
  proof -
    have inside: "sublist p (toLowerCase txt)" if "sublist p (trim (toLowerCase txt))" for p
      using that trim_sublist [of "toLowerCase txt"] sublist_order.order_trans by blast
    let ?s = "trim (toLowerCase txt)"
    from none inside have k: "\<not> js_includes ?s (js ''karl'')"
      and "\<not> js_includes ?s (js ''assistant'')" and "\<not> js_includes ?s (js ''ai '')"
      by (auto simp: js_includes_sublist)
    moreover from k have "\<not> js_includes ?s (js ''@karl'')"
      and "\<not> startsWith ?s (js ''karl '')" and "\<not> startsWith ?s (js ''karl,'')"
      using at_karl_imp_karl karl_space_imp_karl karl_comma_imp_karl by blast+
    ultimately show ?thesis by (intro c) simp
  qed
  show ?thesis using a b c d by (simp add: startBot_trigger_iff)
qed

theorem C1_trigger_predicate_witness:
  "list_ex (\<lambda>b. b) (triggers (trim (toLowerCase (js ''Hey KARL!''))))
   \<and> list_ex (\<lambda>b. b) (triggers (trim (toLowerCase (js ''tell @'' @ js ''Karl'' @ js '', please''))))
   \<and> \<not> list_ex (\<lambda>b. b) (triggers (trim (toLowerCase (js ''good morning''))))
   \<and> startBot_trigger (js ''Hey KARL!'')
   \<and> \<not> startBot_trigger (js ''good morning'')"
  using C1_trigger_predicate [of "js ''Hey KARL!''" "js ''Karl''" "js ''tell @''" "js '', please''"]
    C1_trigger_predicate [of "js ''good morning''" "js ''Karl''" "[]" "[]"]
  by (simp add: js_def toLowerCase_def lowerUnit_def trim_def isWhiteSpace_def triggers_def)

text \<open>
  Claim C10. For every input text, the trigger predicate of \<open>handleMessage\<close>, taken
  on the lower-cased, trimmed text, equals the simplified predicate: the tests for
  \<open>@karl\<close> and for the two prefixes never change the outcome.
\<close>

theorem C10_trigger_equivalent_simplified:
  "list_ex (\<lambda>b. b) (triggers (trim (toLowerCase txt)))
     = simplifiedTrigger (trim (toLowerCase txt))"
proof -
  let ?s = "trim (toLowerCase txt)"
  have redundant:
    "js_includes ?s (js ''@karl'') \<or> startsWith ?s (js ''karl '') \<or> startsWith ?s (js ''karl,'')
     \<Longrightarrow> js_includes ?s (js ''karl'')"
    using at_karl_imp_karl [of ?s] karl_space_imp_karl [of ?s] karl_comma_imp_karl [of ?s]
    by blast
  have "list_ex (\<lambda>b. b) (triggers ?s)
          = (js_includes ?s (js ''karl'') \<or> js_includes ?s (js ''assistant'')
             \<or> js_includes ?s (js ''ai ''))"
    using redundant by (auto simp: triggers_def)
  also have "\<dots> = simplifiedTrigger ?s"
    by (simp add: simplifiedTrigger_def js_includes_sublist)
  finally show ?thesis .
qed

theorem C10_trigger_equivalent_simplified_witness:
  "list_ex (\<lambda>b. b) (triggers (trim (toLowerCase (js ''  Karl, are you there?''))))
   \<and> simplifiedTrigger (trim (toLowerCase (js ''  Karl, are you there?'')))"
  using C10_trigger_equivalent_simplified [of "js ''  Karl, are you there?''"]
  by (simp add: js_def toLowerCase_def lowerUnit_def trim_def isWhiteSpace_def triggers_def)

section \<open>Inbound messages\<close>

lemma getAIResponse_effects:
  "sends (snd (getAIResponse e u c)) = []
   \<and> completions (snd (getAIResponse e u c)) = [CompletionsCreate (systemPrompt c) u]"
  by (simp add: getAIResponse_def sends_def completions_def Let_def
      split: completion_outcome.splits option.splits)

lemma getAIResponse_rate_limit:
  assumes "openai_create e (systemPrompt c) u = CompletionFailed (Some errmsg)"
    and "js_includes errmsg (js ''rate limit'')"
  shows "fst (getAIResponse e u c) = Inr busyApology"
  using assms by (simp add: getAIResponse_def Let_def)

lemma getAIResponse_returns:
  assumes "openai_create e (systemPrompt c) u \<noteq> CompletionFailed None"
  shows "\<exists>aiReply. fst (getAIResponse e u c) = Inr aiReply"
  using assms
  by (simp add: getAIResponse_def Let_def split: completion_outcome.splits option.splits)

lemma handleMessage_not_triggering:
  assumes "\<not> triggering msg"
  shows "sends (handleMessage e this msg) = [] \<and> completions (handleMessage e this msg) = []
         \<and> (remoteJid (key msg) \<noteq> None \<or> fromMe (key msg) \<longrightarrow> handleMessage e this msg = [])"
  using assms
  by (auto simp add: triggering_def handleMessage_def sends_def completions_def Let_def
       split: option.splits)

lemma triggeringE:
  assumes "triggering msg"
  obtains m jid where "message msg = Some m" and "\<not> fromMe (key msg)"
    and "remoteJid (key msg) = Some jid" and "2 \<le> length (extractText m)"
    and "list_ex (\<lambda>b. b) (triggers (trim (toLowerCase (extractText m))))"
  using assms by (auto simp: triggering_def split: option.splits)

lemma handleMessage_reply:
  assumes "message msg = Some m" and "\<not> fromMe (key msg)" and "remoteJid (key msg) = Some from"
    and "2 \<le> length (extractText m)"
    and "list_ex (\<lambda>b. b) (triggers (trim (toLowerCase (extractText m))))"
    and "sock this = Some h"
    and "fst (getAIResponse e (extractText m)
            (chatContext (endsWith from (js ''@g.us'')) (js_or (pushName msg) (js ''User''))))
         = Inr aiReply"
  shows "sends (handleMessage e this msg) =
           [SendMessage h from
              \<lparr>reply_text = JString (BOT_NAME @ js '': '' @ aiReply),
               mentions =
                 (if endsWith from (js ''@g.us'')
                     \<and> (js_includes (trim (toLowerCase (extractText m))) (js ''@karl'')
                        \<or> js_includes (trim (toLowerCase (extractText m))) (js ''karl''))
                  then Some [participant (key msg)] else None)\<rparr>]"
proof -
  let ?c = "chatContext (endsWith from (js ''@g.us'')) (js_or (pushName msg) (js ''User''))"
  obtain r fx where g: "getAIResponse e (extractText m) ?c = (r, fx)"
    by (cases "getAIResponse e (extractText m) ?c")
  with assms(7) have r: "r = Inr aiReply" by simp
  from g getAIResponse_effects [of e "extractText m" ?c] have fx: "sends fx = []" by simp
  from assms(4) have ne: "extractText m \<noteq> []" by auto
  show ?thesis
    using assms(1-6) g r fx ne
    by (simp add: handleMessage_def Let_def sends_def split: send_outcome.splits)
qed

lemma handleMessage_example:
  "handleMessage (exampleEnv (Completed (Some (js ''  4 '')))) connectedBot
     (exampleMessage (js ''120363041234567890@g.us'') False (js ''hey @Karl what is 2+2?''))
   = [Log (LogInbound True (js ''Tariro'') (js ''120363041234567890@g.us'')
             (js ''hey @Karl what is 2+2?'')),
      CompletionsCreate
        (systemPrompt (js ''Group chat with Tariro. Keep it appropriate for groups.''))
        (js ''hey @Karl what is 2+2?''),
      SendMessage 1 (js ''120363041234567890@g.us'')
        \<lparr>reply_text = JString (js ''KARL AI ASSISTANCE: 4''),
         mentions = Some [Some (js ''263771234567@s.whatsapp.net'')]\<rparr>,
      Log (LogReplied (js ''Tariro'') (js ''4''))]"
  by (simp add: handleMessage_def getAIResponse_def exampleEnv_def exampleMessage_def
      connectedBot_def constructor_def extractText_def triggers_def chatContext_def
      BOT_NAME_def endsWith_def Let_def
      js_def toLowerCase_def lowerUnit_def trim_def isWhiteSpace_def)

lemma index_text_short:
  "length (extractText m) < 2
   \<Longrightarrow> length (js_or (conversation m) (js_or (extendedTextMessage_text m) [])) < 2"
  by (cases "conversation m"; cases "extendedTextMessage_text m")
     (auto simp: extractText_def split: if_splits)

lemma short_no_startBot_trigger:
  assumes "length t < 2" shows "\<not> startBot_trigger t"
proof
  assume "startBot_trigger t"
  then have "sublist (js ''karl'') (toLowerCase t)"
    by (simp add: startBot_trigger_iff js_includes_sublist)
  then have "length (js ''karl'') \<le> length (toLowerCase t)"
    by (rule sublist_length_le)
  with length_toLowerCase [of t] assms show False by (simp add: js_def)
qed

lemma startBot_short_or_own:
  assumes "shortOrAbsentText msg \<or> fromMe (key msg)"
  shows "sends (startBot_messages_upsert e h (msg # rest)) = []
         \<and> completions (startBot_messages_upsert e h (msg # rest)) = []"
proof (cases "message msg")
  case None
  then show ?thesis by (simp add: startBot_messages_upsert_def sends_def completions_def)
next
  case (Some m)
  show ?thesis
  proof (cases "fromMe (key msg)")
    case True
    with Some show ?thesis by (simp add: startBot_messages_upsert_def sends_def completions_def)
  next
    case False
    with assms Some have "length (extractText m) < 2" by (simp add: shortOrAbsentText_def)
    then have "\<not> startBot_trigger (js_or (conversation m) (js_or (extendedTextMessage_text m) []))"
      by (intro short_no_startBot_trigger index_text_short)
    with Some False show ?thesis
      by (simp add: startBot_messages_upsert_def sends_def completions_def Let_def
          split: option.splits)
  qed
qed

lemma short_or_own_not_triggering:
  "shortOrAbsentText msg \<or> fromMe (key msg) \<Longrightarrow> \<not> triggering msg"
  by (auto simp: shortOrAbsentText_def triggering_def split: option.splits)

text \<open>
  Claim C2. When the extracted text of an inbound event is absent or shorter than
  two code units, or the event is the bot's own, \<open>handleMessage\<close> sends nothing
  and asks the completion client nothing; it does nothing at all unless the event
  also lacks a conversation id, in which case the only effect is the console line
  of the caught \<open>TypeError\<close>. The same holds for the \<open>messages.upsert\<close> listeners of
  both programs.
\<close>

theorem C2_short_or_own_is_noop:
  assumes "shortOrAbsentText msg \<or> fromMe (key msg)"
  shows "sends (handleMessage e this msg) = [] \<and> completions (handleMessage e this msg) = []
         \<and> (remoteJid (key msg) \<noteq> None \<or> fromMe (key msg) \<longrightarrow> handleMessage e this msg = [])
         \<and> sends (messages_upsert e this ty (msg # rest)) = []
         \<and> completions (messages_upsert e this ty (msg # rest)) = []
         \<and> sends (startBot_messages_upsert e h (msg # rest)) = []
         \<and> completions (startBot_messages_upsert e h (msg # rest)) = []"
proof -
  from assms have nt: "\<not> triggering msg" by (rule short_or_own_not_triggering)
  note hm = handleMessage_not_triggering [OF nt, of e this]
  have "messages_upsert e this ty (msg # rest) = handleMessage e this msg
        \<or> messages_upsert e this ty (msg # rest) = []"
    by (simp add: messages_upsert_def)
  then have "sends (messages_upsert e this ty (msg # rest)) = []
             \<and> completions (messages_upsert e this ty (msg # rest)) = []"
    using hm by (auto simp: sends_def completions_def)
  with hm startBot_short_or_own [OF assms, of e h rest] show ?thesis by simp
qed

theorem C2_short_or_own_is_noop_witness:
  "shortOrAbsentText (exampleMessage (js ''263771234567@s.whatsapp.net'') False (js ''k''))
   \<and> fromMe (key (exampleMessage (js ''120363@g.us'') True (js ''karl, hello'')))
   \<and> handleMessage (exampleEnv (Completed (Some (js ''Hi!'')))) connectedBot
        (exampleMessage (js ''263771234567@s.whatsapp.net'') False (js ''k'')) = []
   \<and> handleMessage (exampleEnv (Completed (Some (js ''Hi!'')))) connectedBot
        (exampleMessage (js ''120363@g.us'') True (js ''karl, hello'')) = []
   \<and> sends (startBot_messages_upsert (exampleEnv (Completed (Some (js ''Hi!'')))) 1
        [exampleMessage (js ''120363@g.us'') True (js ''karl, hello'')]) = []"
  using C2_short_or_own_is_noop [of "exampleMessage (js ''263771234567@s.whatsapp.net'') False (js ''k'')"
          "exampleEnv (Completed (Some (js ''Hi!'')))" connectedBot "js ''notify''" "[]" 1]
    C2_short_or_own_is_noop [of "exampleMessage (js ''120363@g.us'') True (js ''karl, hello'')"
          "exampleEnv (Completed (Some (js ''Hi!'')))" connectedBot "js ''notify''" "[]" 1]
  by (simp add: shortOrAbsentText_def exampleMessage_def extractText_def js_def)

text \<open>
  Claim C3. For a triggering inbound message, when the completion client fails with
  an error whose message contains \<open>rate limit\<close>, \<open>handleMessage\<close> calls the
  transport's send exactly once, and the text sent is the bot's display name, a colon
  and a space, and the busy apology. The bot holds a socket whenever a listener of
  that socket runs.
\<close>

theorem C3_rate_limit_busy_reply:
  assumes "triggering msg" and "sock this = Some h"
    and "\<forall>p u. \<exists>errmsg. openai_create e p u = CompletionFailed (Some errmsg)
           \<and> js_includes errmsg (js ''rate limit'')"
  shows "\<exists>from mt. remoteJid (key msg) = Some from
           \<and> sends (handleMessage e this msg) =
               [SendMessage h from
                  \<lparr>reply_text = JString (BOT_NAME @ js '': '' @ busyApology), mentions = mt\<rparr>]"
proof -
  from assms(1) obtain m jid where t: "message msg = Some m" "\<not> fromMe (key msg)"
      "remoteJid (key msg) = Some jid" "2 \<le> length (extractText m)"
      "list_ex (\<lambda>b. b) (triggers (trim (toLowerCase (extractText m))))"
    by (rule triggeringE)
  let ?c = "chatContext (endsWith jid (js ''@g.us'')) (js_or (pushName msg) (js ''User''))"
  from assms(3) obtain errmsg where
      "openai_create e (systemPrompt ?c) (extractText m) = CompletionFailed (Some errmsg)"
      "js_includes errmsg (js ''rate limit'')"
    by blast
  then have "fst (getAIResponse e (extractText m) ?c) = Inr busyApology"
    by (rule getAIResponse_rate_limit)
  from handleMessage_reply [OF t assms(2) this] t(3) show ?thesis by blast
qed

theorem C3_rate_limit_busy_reply_witness:
  "triggering (exampleMessage (js ''263771234567@s.whatsapp.net'') False (js ''Karl, are you there?''))
   \<and> sock connectedBot = Some 1
   \<and> js_includes (js ''429 rate limit reached'') (js ''rate limit'')
   \<and> (\<exists>mt. sends (handleMessage (exampleEnv (CompletionFailed (Some (js ''429 rate limit reached''))))
              connectedBot
              (exampleMessage (js ''263771234567@s.whatsapp.net'') False (js ''Karl, are you there?'')))
         = [SendMessage 1 (js ''263771234567@s.whatsapp.net'')
              \<lparr>reply_text = JString (BOT_NAME @ js '': '' @ busyApology), mentions = mt\<rparr>])"
proof -
  let ?msg = "exampleMessage (js ''263771234567@s.whatsapp.net'') False (js ''Karl, are you there?'')"
  let ?e = "exampleEnv (CompletionFailed (Some (js ''429 rate limit reached'')))"
  have 1: "triggering ?msg"
    by (simp add: triggering_def exampleMessage_def extractText_def triggers_def
        js_def toLowerCase_def lowerUnit_def trim_def isWhiteSpace_def)
  have 2: "sock connectedBot = Some 1"
    by (simp add: connectedBot_def constructor_def)
  have 3: "js_includes (js ''429 rate limit reached'') (js ''rate limit'')"
    by (simp add: js_def)
  have 4: "\<forall>p u. \<exists>errmsg. openai_create ?e p u = CompletionFailed (Some errmsg)
             \<and> js_includes errmsg (js ''rate limit'')"
    using 3 by (simp add: exampleEnv_def)
  have 5: "remoteJid (key ?msg) = Some (js ''263771234567@s.whatsapp.net'')"
    by (simp add: exampleMessage_def)
  from C3_rate_limit_busy_reply [OF 1 2 4] 5 have
    "\<exists>mt. sends (handleMessage ?e connectedBot ?msg)
         = [SendMessage 1 (js ''263771234567@s.whatsapp.net'')
              \<lparr>reply_text = JString (BOT_NAME @ js '': '' @ busyApology), mentions = mt\<rparr>]"
    by auto
  with 1 2 3 show ?thesis by blast
qed

text \<open>
  Claim C6. For a triggering inbound message to which a reply is sent, the reply
  text is the bot's display name, a colon and a space, and the reply of
  \<open>getAIResponse\<close>; the mention list holding \<open>msg.key.participant\<close> is attached
  exactly when the event is a group message that explicitly mentions the bot, and is
  absent otherwise.
\<close>

theorem C6_reply_prefix_and_mention:
  assumes "triggering msg" and "sock this = Some h"
    and "\<forall>p u. openai_create e p u \<noteq> CompletionFailed None"
  shows "\<exists>from m aiReply. remoteJid (key msg) = Some from \<and> message msg = Some m
           \<and> sends (handleMessage e this msg) =
               [SendMessage h from
                  \<lparr>reply_text = JString (BOT_NAME @ js '': '' @ aiReply),
                   mentions = (if groupMessage msg \<and> mentionsBot m
                               then Some [participant (key msg)] else None)\<rparr>]"
proof -
  from assms(1) obtain m jid where t: "message msg = Some m" "\<not> fromMe (key msg)"
      "remoteJid (key msg) = Some jid" "2 \<le> length (extractText m)"
      "list_ex (\<lambda>b. b) (triggers (trim (toLowerCase (extractText m))))"
    by (rule triggeringE)
  let ?c = "chatContext (endsWith jid (js ''@g.us'')) (js_or (pushName msg) (js ''User''))"
  from assms(3) have "openai_create e (systemPrompt ?c) (extractText m) \<noteq> CompletionFailed None"
    by blast
  then obtain aiReply where "fst (getAIResponse e (extractText m) ?c) = Inr aiReply"
    using getAIResponse_returns by blast
  from handleMessage_reply [OF t assms(2) this] t(1,3) show ?thesis
    by (simp add: groupMessage_def mentionsBot_def js_includes_sublist)
qed

theorem C6_reply_prefix_and_mention_witness:
  "triggering (exampleMessage (js ''120363041234567890@g.us'') False (js ''hey @Karl what is 2+2?''))
   \<and> triggering (exampleMessage (js ''263771234567@s.whatsapp.net'') False (js ''hey @Karl what is 2+2?''))
   \<and> sock connectedBot = Some 1
   \<and> (\<forall>p u. openai_create (exampleEnv (Completed (Some (js ''4'')))) p u \<noteq> CompletionFailed None)
   \<and> (\<exists>aiReply.
        sends (handleMessage (exampleEnv (Completed (Some (js ''4'')))) connectedBot
              (exampleMessage (js ''120363041234567890@g.us'') False (js ''hey @Karl what is 2+2?'')))
        = [SendMessage 1 (js ''120363041234567890@g.us'')
            \<lparr>reply_text = JString (BOT_NAME @ js '': '' @ aiReply),
             mentions = Some [Some (js ''263771234567@s.whatsapp.net'')]\<rparr>])
   \<and> (\<exists>aiReply.
        sends (handleMessage (exampleEnv (Completed (Some (js ''4'')))) connectedBot
              (exampleMessage (js ''263771234567@s.whatsapp.net'') False (js ''hey @Karl what is 2+2?'')))
        = [SendMessage 1 (js ''263771234567@s.whatsapp.net'')
            \<lparr>reply_text = JString (BOT_NAME @ js '': '' @ aiReply), mentions = None\<rparr>])"
proof -
  let ?g = "exampleMessage (js ''120363041234567890@g.us'') False (js ''hey @Karl what is 2+2?'')"
  let ?d = "exampleMessage (js ''263771234567@s.whatsapp.net'') False (js ''hey @Karl what is 2+2?'')"
  let ?m = "\<lparr>conversation = Some (js ''hey @Karl what is 2+2?''), extendedTextMessage_text = None,
            imageMessage_caption = None, videoMessage_caption = None\<rparr>"
  let ?e = "exampleEnv (Completed (Some (js ''4'')))"
  have 1: "triggering ?g" "triggering ?d"
    by (simp_all add: triggering_def exampleMessage_def extractText_def triggers_def
        js_def toLowerCase_def lowerUnit_def trim_def isWhiteSpace_def)
  have 2: "sock connectedBot = Some 1"
    by (simp add: connectedBot_def constructor_def)
  have 3: "\<forall>p u. openai_create ?e p u \<noteq> CompletionFailed None"
    by (simp add: exampleEnv_def)
  have 4: "groupMessage ?g" "\<not> groupMessage ?d"
    by (simp_all add: groupMessage_def exampleMessage_def endsWith_def js_def)
  have 5: "mentionsBot ?m"
    by (simp add: mentionsBot_def js_includes_sublist [symmetric] extractText_def
        js_def toLowerCase_def lowerUnit_def trim_def isWhiteSpace_def)
  have 6: "remoteJid (key ?g) = Some (js ''120363041234567890@g.us'')"
      "remoteJid (key ?d) = Some (js ''263771234567@s.whatsapp.net'')"
      "message ?g = Some ?m" "message ?d = Some ?m"
      "participant (key ?g) = Some (js ''263771234567@s.whatsapp.net'')"
    by (simp_all add: exampleMessage_def)
  from C6_reply_prefix_and_mention [OF 1(1) 2 3] 4(1) 5 6 have g:
    "\<exists>aiReply. sends (handleMessage ?e connectedBot ?g)
        = [SendMessage 1 (js ''120363041234567890@g.us'')
            \<lparr>reply_text = JString (BOT_NAME @ js '': '' @ aiReply),
             mentions = Some [Some (js ''263771234567@s.whatsapp.net'')]\<rparr>]"
    by auto
  from C6_reply_prefix_and_mention [OF 1(2) 2 3] 4(2) 6 have d:
    "\<exists>aiReply. sends (handleMessage ?e connectedBot ?d)
        = [SendMessage 1 (js ''263771234567@s.whatsapp.net'')
            \<lparr>reply_text = JString (BOT_NAME @ js '': '' @ aiReply), mentions = None\<rparr>]"
    by auto
  from 1 2 3 g d show ?thesis by blast
qed

section \<open>Connection lifecycle\<close>

lemma timers_append: "timers (a @ b) = timers a @ timers b"
  by (simp add: timers_def)

lemma fatalReports_append: "fatalReports (a @ b) = fatalReports a + fatalReports b"
  by (simp add: fatalReports_def)

lemma pairingRequests_append: "pairingRequests (a @ b) = pairingRequests a @ pairingRequests b"
  by (simp add: pairingRequests_def)

lemma requestPairingCode_trace:
  "timers (snd (requestPairingCode e this file)) = []
   \<and> fatalReports (snd (requestPairingCode e this file)) = 0
   \<and> sends (snd (requestPairingCode e this file)) = []"
  by (simp add: requestPairingCode_def timers_def fatalReports_def sends_def Let_def
      split: option.splits pairing_outcome.splits)

lemma unhandled_trace: "timers (unhandled err) = [] \<and> fatalReports (unhandled err) = 0"
  by (simp add: unhandled_def timers_def fatalReports_def split: option.splits)

lemma close_retry:
  assumes "connection u = Some ConnClose"
    and "statusCode u \<noteq> Some (DisconnectReason_loggedOut e)"
    and "reconnectAttempts this < maxReconnectAttempts this"
  shows "fst (on_connection_update e this file u)
           = (this\<lparr>isConnected := False, reconnectAttempts := reconnectAttempts this + 1\<rparr>, file)"
    and "timers (snd (on_connection_update e this file u))
           = [SetTimeoutInitialize (5000 * (reconnectAttempts this + 1))]"
    and "fatalReports (snd (on_connection_update e this file u)) = 0"
  using assms
  by (simp_all add: on_connection_update_def Let_def timers_def fatalReports_def)

lemma close_exhausted:
  assumes "connection u = Some ConnClose"
    and "statusCode u \<noteq> Some (DisconnectReason_loggedOut e)"
    and "\<not> reconnectAttempts this < maxReconnectAttempts this"
  shows "fst (on_connection_update e this file u) = (this\<lparr>isConnected := False\<rparr>, file)"
    and "timers (snd (on_connection_update e this file u)) = []"
    and "fatalReports (snd (on_connection_update e this file u)) = 1"
  using assms
  by (simp_all add: on_connection_update_def Let_def timers_def fatalReports_def)

lemma close_loggedOut:
  assumes "connection u = Some ConnClose"
    and "statusCode u = Some (DisconnectReason_loggedOut e)"
  shows "fst (fst (on_connection_update e this file u)) = this\<lparr>isConnected := False\<rparr>"
    and "snd (on_connection_update e this file u)
           = (if js_or (qr u) [] \<noteq> [] then [Log LogQR] else [])
             @ [Log (LogConnectionClosed (statusCode u)), Log LogLoggedOut]
             @ snd (requestPairingCode e (this\<lparr>isConnected := False\<rparr>) file)
             @ unhandled (fst (fst (requestPairingCode e (this\<lparr>isConnected := False\<rparr>) file)))"
  using assms
  by (simp_all add: on_connection_update_def Let_def split: prod.splits)

lemma step_close:
  assumes "sock (bot_instance s) \<noteq> None"
  shows "step s (e, ConnectionUpdate u)
         = (\<lparr>bot_instance = fst (fst (on_connection_update e (bot_instance s) (pairing_log_json s) u)),
             pairing_log_json = snd (fst (on_connection_update e (bot_instance s) (pairing_log_json s) u))\<rparr>,
            snd (on_connection_update e (bot_instance s) (pairing_log_json s) u))"
  using assms by (auto simp add: step_def split: prod.splits)

lemma run_closes:
  assumes "sock (bot_instance s) \<noteq> None" and "maxReconnectAttempts (bot_instance s) = 5"
    and "reconnectAttempts (bot_instance s) = int c" and "c \<le> 5"
    and "\<forall>eu \<in> set eus. otherClose eu"
  shows "timers (snd (run s (closeEvents eus)))
           = map (\<lambda>k. SetTimeoutInitialize (5000 * int k)) [Suc c ..< Suc (min (c + length eus) 5)]
         \<and> fatalReports (snd (run s (closeEvents eus))) = (c + length eus) - 5"
  using assms
proof (induction eus arbitrary: s c)
  case Nil
  then show ?case by (simp add: closeEvents_def timers_def fatalReports_def)
next
  case (Cons eu eus)
  obtain e u where eu: "eu = (e, u)" by (cases eu)
  with Cons.prems(5) have cl: "connection u = Some ConnClose"
      "statusCode u \<noteq> Some (DisconnectReason_loggedOut e)"
    by (simp_all add: otherClose_def)
  let ?b = "bot_instance s"
  let ?R = "on_connection_update e ?b (pairing_log_json s) u"
  let ?s' = "\<lparr>bot_instance = fst (fst ?R), pairing_log_json = snd (fst ?R)\<rparr>"
  have st: "step s (e, ConnectionUpdate u) = (?s', snd ?R)"
    using Cons.prems(1) by (rule step_close)
  have unfold: "run s (closeEvents (eu # eus))
      = (fst (run ?s' (closeEvents eus)), snd ?R @ snd (run ?s' (closeEvents eus)))"
    by (simp add: closeEvents_def eu st split: prod.splits)
  from Cons.prems(5) have rest: "\<forall>eu \<in> set eus. otherClose eu" by simp
  show ?case
  proof (cases "c < 5")
    case True
    with Cons.prems(2,3) have lt: "reconnectAttempts ?b < maxReconnectAttempts ?b" by simp
    note r = close_retry [OF cl lt, of "pairing_log_json s"]
    have s': "sock (bot_instance ?s') \<noteq> None" "maxReconnectAttempts (bot_instance ?s') = 5"
        "reconnectAttempts (bot_instance ?s') = int (Suc c)" "Suc c \<le> 5"
      using r(1) Cons.prems(1-3) True by simp_all
    note ih = Cons.IH [OF s' rest]
    have len: "c + length (eu # eus) = Suc c + length eus" by simp
    have "Suc c < Suc (min (Suc c + length eus) 5)"
      using True by simp
    then have "[Suc c ..< Suc (min (Suc c + length eus) 5)]
            = Suc c # [Suc (Suc c) ..< Suc (min (Suc c + length eus) 5)]"
      by (rule upt_conv_Cons)
    with ih r(2,3) Cons.prems(3) show ?thesis
      by (simp only: unfold len snd_conv timers_append fatalReports_append list.map) simp
  next
    case False
    with Cons.prems(4) have c5: "c = 5" by simp
    with Cons.prems(2,3) have ge: "\<not> reconnectAttempts ?b < maxReconnectAttempts ?b" by simp
    note r = close_exhausted [OF cl ge, of "pairing_log_json s"]
    have s': "sock (bot_instance ?s') \<noteq> None" "maxReconnectAttempts (bot_instance ?s') = 5"
        "reconnectAttempts (bot_instance ?s') = int c" "c \<le> 5"
      using r(1) Cons.prems(1-3) c5 by simp_all
    note ih = Cons.IH [OF s' rest]
    with r(2,3) c5 show ?thesis
      by (simp add: unfold timers_append fatalReports_append)
  qed
qed

text \<open>
  Claim C4. On a close event with a reason other than logged-out, with the maximum
  at 5: while the counter is below 5 it is incremented and one timer for
  \<open>initialize\<close> is set, with delay 5000 ms times the new counter value, and no
  fatal condition is reported; from 5 on the counter stays, no timer is set and
  the fatal condition is reported once. So a run of such close events from counter
  0 sets the timers 5000, 10000, 15000, 20000, 25000 ms for the first five events
  and reports the fatal condition for every later one.
\<close>

theorem C4_reconnect_backoff:
  assumes "connection u = Some ConnClose"
    and "statusCode u \<noteq> Some (DisconnectReason_loggedOut e)"
    and "maxReconnectAttempts this = 5"
    and "sock (bot_instance s) \<noteq> None" and "maxReconnectAttempts (bot_instance s) = 5"
    and "reconnectAttempts (bot_instance s) = 0"
    and "\<forall>eu \<in> set eus. otherClose eu"
  shows "(reconnectAttempts this < 5 \<longrightarrow>
            reconnectAttempts (fst (fst (on_connection_update e this file u)))
              = reconnectAttempts this + 1
          \<and> timers (snd (on_connection_update e this file u))
              = [SetTimeoutInitialize (5000 * (reconnectAttempts this + 1))]
          \<and> fatalReports (snd (on_connection_update e this file u)) = 0)
       \<and> (5 \<le> reconnectAttempts this \<longrightarrow>
            reconnectAttempts (fst (fst (on_connection_update e this file u)))
              = reconnectAttempts this
          \<and> timers (snd (on_connection_update e this file u)) = []
          \<and> fatalReports (snd (on_connection_update e this file u)) = 1)
       \<and> timers (snd (run s (closeEvents eus)))
           = map (\<lambda>k. SetTimeoutInitialize (5000 * int k)) [1 ..< Suc (min (length eus) 5)]
       \<and> fatalReports (snd (run s (closeEvents eus))) = length eus - 5"
proof -
  have a: ?thesis if "reconnectAttempts this < 5"
    using close_retry [OF assms(1,2), of this "file"] that assms(3)
      run_closes [OF assms(4,5), of 0 eus] assms(6,7)
    by simp
  have b: ?thesis if "5 \<le> reconnectAttempts this"
    using close_exhausted [OF assms(1,2), of this "file"] that assms(3)
      run_closes [OF assms(4,5), of 0 eus] assms(6,7)
    by simp
  from a b show ?thesis by linarith
qed

theorem C4_reconnect_backoff_witness:
  "otherClose (exampleEnv (Completed None), exampleClose 428)
   \<and> reconnectAttempts (fst (fst (on_connection_update (exampleEnv (Completed None))
          (constructor\<lparr>sock := Some 1, reconnectAttempts := 2\<rparr>) None (exampleClose 428)))) = 3
   \<and> timers (snd (on_connection_update (exampleEnv (Completed None))
          (constructor\<lparr>sock := Some 1, reconnectAttempts := 2\<rparr>) None (exampleClose 428)))
       = [SetTimeoutInitialize 15000]
   \<and> timers (snd (run readySystem
          (closeEvents (replicate 7 (exampleEnv (Completed None), exampleClose 428)))))
       = [SetTimeoutInitialize 5000, SetTimeoutInitialize 10000, SetTimeoutInitialize 15000,
          SetTimeoutInitialize 20000, SetTimeoutInitialize 25000]
   \<and> fatalReports (snd (run readySystem
          (closeEvents (replicate 7 (exampleEnv (Completed None), exampleClose 428))))) = 2"
proof -
  let ?e = "exampleEnv (Completed None)"
  let ?u = "exampleClose 428"
  let ?b = "constructor\<lparr>sock := Some 1, reconnectAttempts := 2\<rparr>"
  have 1: "connection ?u = Some ConnClose" "statusCode ?u \<noteq> Some (DisconnectReason_loggedOut ?e)"
    by (simp_all add: exampleClose_def exampleEnv_def)
  then have oc: "otherClose (?e, ?u)" by (simp add: otherClose_def)
  have 2: "maxReconnectAttempts ?b = 5" "reconnectAttempts ?b = 2"
    by (simp_all add: constructor_def)
  have 3: "sock (bot_instance readySystem) \<noteq> None"
      "maxReconnectAttempts (bot_instance readySystem) = 5"
      "reconnectAttempts (bot_instance readySystem) = 0"
    by (simp_all add: readySystem_def constructor_def)
  have 4: "\<forall>eu \<in> set (replicate 7 (?e, ?u)). otherClose eu"
    using oc by simp
  have 5: "[1 ..< Suc (min (length (replicate 7 (?e, ?u))) 5)] = [1, 2, 3, 4, 5]"
    by (simp add: upt_rec)
  from C4_reconnect_backoff [OF 1 2(1) 3 4, of None] 2(2) oc show ?thesis
    by (simp only: 5) simp
qed

lemma stripNonDigits_digits:
  "(\<forall>c \<in> set (stripNonDigits s). 0x30 \<le> c \<and> c \<le> 0x39)
   \<and> filter isDigit (stripNonDigits s) = filter isDigit s"
proof
  show "\<forall>c \<in> set (stripNonDigits s). 0x30 \<le> c \<and> c \<le> 0x39"
    by (auto simp: stripNonDigits_def isDigit_def)
  show "filter isDigit (stripNonDigits s) = filter isDigit s"
    by (simp add: stripNonDigits_def)
qed

lemma requestPairingCode_no_socket:
  "sock this = None \<Longrightarrow> requestPairingCode e this file = ((None, file), [Log LogSocketNotReady])"
  by (simp add: requestPairingCode_def)

lemma requestPairingCode_request:
  "sock this = Some h
   \<Longrightarrow> pairingRequests (snd (requestPairingCode e this file))
       = [RequestPairingCode h (stripNonDigits (PHONE_NUMBER e))]"
  by (simp add: requestPairingCode_def pairingRequests_def Let_def
      split: pairing_outcome.splits option.splits)

lemma requestPairingCode_success:
  "sock this = Some h
   \<Longrightarrow> sock_requestPairingCode e h (stripNonDigits (PHONE_NUMBER e)) = PairingCode c
   \<Longrightarrow> fst (requestPairingCode e this file)
       = (None, Some \<lparr>timestamp = now_ISO e, phone = PHONE_NUMBER e, code = c,
                       status = js ''generated''\<rparr>)"
  by (simp add: requestPairingCode_def Let_def)

lemma requestPairingCode_failure:
  "sock this = Some h
   \<Longrightarrow> sock_requestPairingCode e h (stripNonDigits (PHONE_NUMBER e)) = PairingFailed em
   \<Longrightarrow> snd (fst (requestPairingCode e this file)) = file"
  by (simp add: requestPairingCode_def Let_def split: option.splits)

text \<open>
  Claim C5. On a close event whose reason is logged-out, the listener of
  \<open>WhatsAppBot\<close> leaves the reconnect counter as it is, sets no timer and starts
  nothing, and runs \<open>requestPairingCode\<close> after its two console lines: with a
  socket at hand, exactly one pairing code is requested from the transport. The
  listener of index.js, which has no counter, starts no reconnection on such an
  event either.
\<close>

theorem C5_logged_out_close:
  assumes "connection u = Some ConnClose"
    and "statusCode u = Some (DisconnectReason_loggedOut e)"
  shows "reconnectAttempts (fst (fst (on_connection_update e this file u)))
           = reconnectAttempts this
       \<and> timers (snd (on_connection_update e this file u)) = []
       \<and> snd (on_connection_update e this file u)
           = (if js_or (qr u) [] \<noteq> [] then [Log LogQR] else [])
             @ [Log (LogConnectionClosed (statusCode u)), Log LogLoggedOut]
             @ snd (requestPairingCode e (this\<lparr>isConnected := False\<rparr>) file)
             @ unhandled (fst (fst (requestPairingCode e (this\<lparr>isConnected := False\<rparr>) file)))
       \<and> (sock this = Some h \<longrightarrow>
            pairingRequests (snd (on_connection_update e this file u))
              = [RequestPairingCode h (stripNonDigits (PHONE_NUMBER e))])
       \<and> timers (startBot_connection_update e u) = []"
proof -
  note lo = close_loggedOut [OF assms, of this "file"]
  have t: "timers (snd (on_connection_update e this file u)) = []"
    using requestPairingCode_trace [of e "this\<lparr>isConnected := False\<rparr>" "file"]
      unhandled_trace
    by (simp add: lo(2) timers_append) (simp add: timers_def)
  have p: "pairingRequests (snd (on_connection_update e this file u))
              = [RequestPairingCode h (stripNonDigits (PHONE_NUMBER e))]" if "sock this = Some h"
  proof -
    from that have "sock (this\<lparr>isConnected := False\<rparr>) = Some h" by simp
    from requestPairingCode_request [OF this, of e "file"] show ?thesis
      by (simp add: lo(2) pairingRequests_append)
         (simp add: pairingRequests_def unhandled_def split: option.splits)
  qed
  have i: "timers (startBot_connection_update e u) = []"
    using assms by (simp add: startBot_connection_update_def timers_def)
  from lo t p i show ?thesis by simp
qed

theorem C5_logged_out_close_witness:
  "connection (exampleClose 401) = Some ConnClose
   \<and> statusCode (exampleClose 401) = Some (DisconnectReason_loggedOut (exampleEnv (Completed None)))
   \<and> reconnectAttempts (fst (fst (on_connection_update (exampleEnv (Completed None))
          (connectedBot\<lparr>reconnectAttempts := 3\<rparr>) None (exampleClose 401)))) = 3
   \<and> timers (snd (on_connection_update (exampleEnv (Completed None))
          (connectedBot\<lparr>reconnectAttempts := 3\<rparr>) None (exampleClose 401))) = []
   \<and> pairingRequests (snd (on_connection_update (exampleEnv (Completed None))
          (connectedBot\<lparr>reconnectAttempts := 3\<rparr>) None (exampleClose 401)))
       = [RequestPairingCode 1 (js ''263777965084'')]
   \<and> timers (startBot_connection_update (exampleEnv (Completed None)) (exampleClose 401)) = []"
proof -
  let ?e = "exampleEnv (Completed None)"
  let ?u = "exampleClose 401"
  let ?b = "connectedBot\<lparr>reconnectAttempts := 3\<rparr>"
  have 1: "connection ?u = Some ConnClose" "statusCode ?u = Some (DisconnectReason_loggedOut ?e)"
    by (simp_all add: exampleClose_def exampleEnv_def)
  have 2: "sock ?b = Some 1" "reconnectAttempts ?b = 3"
    by (simp_all add: connectedBot_def constructor_def)
  have 3: "stripNonDigits (PHONE_NUMBER ?e) = js ''263777965084''"
    by (simp add: exampleEnv_def stripNonDigits_def isDigit_def js_def)
  note c = C5_logged_out_close [OF 1, of ?b None 1]
  from c have "reconnectAttempts (fst (fst (on_connection_update ?e ?b None ?u)))
      = reconnectAttempts ?b"
    by (rule conjunct1)
  then have a: "reconnectAttempts (fst (fst (on_connection_update ?e ?b None ?u))) = 3"
    by (simp only: 2(2))
  from c have b: "timers (snd (on_connection_update ?e ?b None ?u)) = []"
    by blast
  from c 2(1) have "pairingRequests (snd (on_connection_update ?e ?b None ?u))
      = [RequestPairingCode 1 (stripNonDigits (PHONE_NUMBER ?e))]"
    by blast
  then have p: "pairingRequests (snd (on_connection_update ?e ?b None ?u))
      = [RequestPairingCode 1 (js ''263777965084'')]"
    by (simp only: 3)
  from c have i: "timers (startBot_connection_update ?e ?u) = []"
    by blast
  from 1 a b p i show ?thesis by blast
qed

text \<open>
  Claim C8. \<open>requestPairingCode\<close> without a socket only logs the warning and
  leaves \<open>pairing_log.json\<close> as it is. With a socket it requests one pairing code,
  for the configured phone number with every code unit other than an ASCII digit
  removed; when the transport returns a code, \<open>pairing_log.json\<close> holds the new
  record afterwards, whatever it held before.
\<close>

theorem C8_requestPairingCode:
  "(sock this = None \<longrightarrow>
      requestPairingCode e this file = ((None, file), [Log LogSocketNotReady]))
   \<and> (sock this = Some h \<longrightarrow>
        pairingRequests (snd (requestPairingCode e this file))
          = [RequestPairingCode h (stripNonDigits (PHONE_NUMBER e))]
        \<and> (\<forall>c \<in> set (stripNonDigits (PHONE_NUMBER e)). 0x30 \<le> c \<and> c \<le> 0x39)
        \<and> filter isDigit (stripNonDigits (PHONE_NUMBER e)) = filter isDigit (PHONE_NUMBER e))
   \<and> (sock this = Some h
        \<and> sock_requestPairingCode e h (stripNonDigits (PHONE_NUMBER e)) = PairingCode c \<longrightarrow>
        snd (fst (requestPairingCode e this file))
          = Some \<lparr>timestamp = now_ISO e, phone = PHONE_NUMBER e, code = c,
                  status = js ''generated''\<rparr>)"
  using requestPairingCode_no_socket [of this e "file"]
    requestPairingCode_request [of this h e "file"]
    requestPairingCode_success [of this h e c "file"]
    stripNonDigits_digits [of "PHONE_NUMBER e"]
  by simp

theorem C8_requestPairingCode_witness:
  "sock constructor = None
   \<and> requestPairingCode (exampleEnv (Completed None)) constructor (Some examplePairingLog)
       = ((None, Some examplePairingLog), [Log LogSocketNotReady])
   \<and> sock connectedBot = Some 1
   \<and> sock_requestPairingCode (exampleEnv (Completed None)) 1 (js ''263777965084'')
       = PairingCode (js ''ABCD1234'')
   \<and> pairingRequests (snd (requestPairingCode (exampleEnv (Completed None)) connectedBot
                               (Some examplePairingLog)))
       = [RequestPairingCode 1 (js ''263777965084'')]
   \<and> snd (fst (requestPairingCode (exampleEnv (Completed None)) connectedBot
                  (Some examplePairingLog)))
       = Some \<lparr>timestamp = js ''2025-01-01T00:00:00.000Z'', phone = js ''+263 777-965084'',
               code = js ''ABCD1234'', status = js ''generated''\<rparr>"
proof -
  let ?e = "exampleEnv (Completed None)"
  have 1: "sock constructor = None" "sock connectedBot = Some 1"
    by (simp_all add: constructor_def connectedBot_def)
  have 2: "stripNonDigits (PHONE_NUMBER ?e) = js ''263777965084''"
    by (simp add: exampleEnv_def stripNonDigits_def isDigit_def js_def)
  have 3: "sock_requestPairingCode ?e 1 (js ''263777965084'') = PairingCode (js ''ABCD1234'')"
      "now_ISO ?e = js ''2025-01-01T00:00:00.000Z''" "PHONE_NUMBER ?e = js ''+263 777-965084''"
    by (simp_all add: exampleEnv_def)
  from C8_requestPairingCode [of constructor ?e "Some examplePairingLog" 1 "js ''ABCD1234''"]
    C8_requestPairingCode [of connectedBot ?e "Some examplePairingLog" 1 "js ''ABCD1234''"]
    1 2 3
  show ?thesis by simp
qed

lemma on_connection_update_attempts:
  "reconnectAttempts (fst (fst (on_connection_update e this file u)))
     = (if connection u = Some ConnOpen then 0
        else if connection u = Some ConnClose
                \<and> statusCode u \<noteq> Some (DisconnectReason_loggedOut e)
                \<and> reconnectAttempts this < maxReconnectAttempts this
        then reconnectAttempts this + 1
        else reconnectAttempts this)
   \<and> maxReconnectAttempts (fst (fst (on_connection_update e this file u)))
       = maxReconnectAttempts this"
  by (simp add: on_connection_update_def Let_def
      split: option.splits connection_state.splits prod.splits)

lemma step_attempts:
  "reconnectAttempts (bot_instance (fst (step s ee))) = attemptsAfter s ee
   \<and> maxReconnectAttempts (bot_instance (fst (step s ee)))
       = maxReconnectAttempts (bot_instance s)"
proof -
  obtain e ev where ee: "ee = (e, ev)" by (cases ee)
  show ?thesis
  proof (cases ev)
    case (ConnectionUpdate u)
    show ?thesis
    proof (cases "sock (bot_instance s) = None")
      case True
      with ee ConnectionUpdate show ?thesis by (simp add: step_def attemptsAfter_def Let_def)
    next
      case False
      then have "step s (e, ConnectionUpdate u)
         = (\<lparr>bot_instance = fst (fst (on_connection_update e (bot_instance s) (pairing_log_json s) u)),
             pairing_log_json = snd (fst (on_connection_update e (bot_instance s) (pairing_log_json s) u))\<rparr>,
            snd (on_connection_update e (bot_instance s) (pairing_log_json s) u))"
        by (rule step_close)
      with False ee ConnectionUpdate
        on_connection_update_attempts [of e "bot_instance s" "pairing_log_json s" u]
      show ?thesis by (auto simp add: attemptsAfter_def Let_def)
    qed
  qed (simp_all add: ee step_def attemptsAfter_def Let_def initialize_def
        split: prod.splits socket_outcome.splits option.splits)
qed

lemma step_attemptsInRange:
  assumes "attemptsInRange (bot_instance s)"
  shows "attemptsInRange (bot_instance (fst (step s ee)))"
proof -
  obtain e ev where ee: "ee = (e, ev)" by (cases ee)
  from assms step_attempts [of s ee] show ?thesis
    by (cases ev) (auto simp: ee attemptsInRange_def attemptsAfter_def Let_def)
qed

lemma fst_run_Cons: "fst (run s (ee # evs)) = fst (run (fst (step s ee)) evs)"
  by (simp split: prod.splits)

lemma run_attemptsInRange:
  "attemptsInRange (bot_instance s) \<Longrightarrow> attemptsInRange (bot_instance (fst (run s evs)))"
proof (induction evs arbitrary: s)
  case Nil
  then show ?case by simp
next
  case (Cons ee evs)
  from Cons.prems have "attemptsInRange (bot_instance (fst (step s ee)))"
    by (rule step_attemptsInRange)
  then have "attemptsInRange (bot_instance (fst (run (fst (step s ee)) evs)))"
    by (rule Cons.IH)
  then show ?case by (simp only: fst_run_Cons)
qed

text \<open>
  Claim C9. The counter starts at 0; after any sequence of events it lies between 0
  and \<open>maxReconnectAttempts\<close>, which stays 5; and one event changes it only as
  \<open>attemptsAfter\<close> says: reset by an open event, incremented under the guard by a
  close event with a reason other than logged-out, unchanged by everything else.
\<close>

theorem C9_reconnectAttempts_invariant:
  "reconnectAttempts (bot_instance (start file)) = 0
   \<and> 0 \<le> reconnectAttempts (bot_instance (fst (run (start file) evs)))
   \<and> reconnectAttempts (bot_instance (fst (run (start file) evs)))
       \<le> maxReconnectAttempts (bot_instance (fst (run (start file) evs)))
   \<and> maxReconnectAttempts (bot_instance (fst (run (start file) evs))) = 5
   \<and> reconnectAttempts (bot_instance (fst (step s ee))) = attemptsAfter s ee"
proof -
  have "attemptsInRange (bot_instance (start file))"
    by (simp add: attemptsInRange_def start_def constructor_def)
  then have "attemptsInRange (bot_instance (fst (run (start file) evs)))"
    by (rule run_attemptsInRange)
  with step_attempts [of s ee] show ?thesis
    by (simp add: attemptsInRange_def start_def constructor_def)
qed

theorem C9_reconnectAttempts_invariant_witness:
  "reconnectAttempts (bot_instance (fst (run (start None)
      ((exampleEnv (Completed None), Initialize (SocketMade 1))
       # closeEvents (replicate 7 (exampleEnv (Completed None), exampleClose 428))))))
     \<le> 5
   \<and> attemptsAfter readySystem (exampleEnv (Completed None), ConnectionUpdate (exampleClose 428)) = 1
   \<and> attemptsAfter (readySystem\<lparr>bot_instance := connectedBot\<lparr>reconnectAttempts := 4\<rparr>\<rparr>)
        (exampleEnv (Completed None), ConnectionUpdate exampleOpen) = 0
   \<and> reconnectAttempts (bot_instance (fst (step
        (readySystem\<lparr>bot_instance := connectedBot\<lparr>reconnectAttempts := 4\<rparr>\<rparr>)
        (exampleEnv (Completed None), ConnectionUpdate exampleOpen)))) = 0"
proof -
  let ?e = "exampleEnv (Completed None)"
  let ?evs = "(?e, Initialize (SocketMade 1)) # closeEvents (replicate 7 (?e, exampleClose 428))"
  let ?s = "readySystem\<lparr>bot_instance := connectedBot\<lparr>reconnectAttempts := 4\<rparr>\<rparr>"
  have 1: "attemptsAfter readySystem (?e, ConnectionUpdate (exampleClose 428)) = 1"
    by (simp add: attemptsAfter_def readySystem_def constructor_def exampleClose_def
        exampleEnv_def Let_def)
  have 2: "attemptsAfter ?s (?e, ConnectionUpdate exampleOpen) = 0"
    by (simp add: attemptsAfter_def readySystem_def connectedBot_def constructor_def
        exampleOpen_def Let_def)
  from C9_reconnectAttempts_invariant [of None ?evs ?s "(?e, ConnectionUpdate exampleOpen)"] 1 2
  show ?thesis by simp
qed

section \<open>POST /send/:number\<close>

lemma post_send_rejected:
  assumes "body req (js ''message'') = None
           \<or> (\<exists>v. body req (js ''message'') = Some v \<and> \<not> truthy v)"
  shows "post_send e this req
           = (\<lparr>status_code = 400, json_body = JsonError (js ''Message required'')\<rparr>, [])"
  using assms by (auto simp: post_send_def)

lemma post_send_connected:
  assumes "body req (js ''message'') = Some v" and "truthy v"
    and "isConnected this" and "sock this = Some h"
  shows "snd (post_send e this req)
           = [SendMessage h (stripNonDigits (params_number req) @ js ''@s.whatsapp.net'')
                \<lparr>reply_text = v, mentions = None\<rparr>]"
  using assms
  by (simp add: post_send_def sendDirectMessage_def Let_def split: send_outcome.splits)

lemma post_send_not_connected:
  assumes "body req (js ''message'') = Some v" and "truthy v"
    and "\<not> isConnected this \<or> sock this = None"
  shows "post_send e this req
           = (\<lparr>status_code = 500,
               json_body = JsonFailure (Error (Some (js ''Bot not connected'')))\<rparr>, [])"
  using assms
  by (auto simp add: post_send_def sendDirectMessage_def Let_def)

text \<open>
  Claim C7 says that every request with a \<open>message\<close> field leads to a send. It does
  not: a bot that is not connected answers 500 and sends nothing, and an empty
  \<open>message\<close> is answered 400.
\<close>

theorem C7_post_send_counterexample:
  "body (exampleRequest (js ''263771234567'') (JString (js ''hi''))) (js ''message'')
     = Some (JString (js ''hi''))
   \<and> post_send (exampleEnv (Completed None)) constructor
        (exampleRequest (js ''263771234567'') (JString (js ''hi'')))
     = (\<lparr>status_code = 500,
         json_body = JsonFailure (Error (Some (js ''Bot not connected'')))\<rparr>, [])
   \<and> body (exampleRequest (js ''263771234567'') (JString [])) (js ''message'')
     = Some (JString [])
   \<and> post_send (exampleEnv (Completed None)) connectedBot
        (exampleRequest (js ''263771234567'') (JString []))
     = (\<lparr>status_code = 400, json_body = JsonError (js ''Message required'')\<rparr>, [])"
  by (simp add: exampleRequest_def post_send_def sendDirectMessage_def constructor_def
      connectedBot_def Let_def js_def)

text \<open>
  Claim C7, amended. A request whose body has no \<open>message\<close> field, or a falsy one,
  is answered 400 with \<open>{error: "Message required"}\<close> and nothing is sent. Otherwise
  the target is the \<open>:number\<close> parameter with every code unit other than an ASCII
  digit removed, followed by \<open>@s.whatsapp.net\<close>; when the bot is connected and holds
  a socket, the transport's send is called once with that target and the given
  message; when it is not, the answer is 500 with the error \<open>Bot not connected\<close>
  and nothing is sent.
\<close>

theorem C7_post_send:
  "(body req (js ''message'') = None
      \<or> (\<exists>w. body req (js ''message'') = Some w \<and> \<not> truthy w) \<longrightarrow>
      post_send e this req
        = (\<lparr>status_code = 400, json_body = JsonError (js ''Message required'')\<rparr>, []))
   \<and> (body req (js ''message'') = Some v \<and> truthy v \<and> isConnected this \<and> sock this = Some h \<longrightarrow>
        snd (post_send e this req)
          = [SendMessage h (stripNonDigits (params_number req) @ js ''@s.whatsapp.net'')
               \<lparr>reply_text = v, mentions = None\<rparr>]
        \<and> (\<forall>c \<in> set (stripNonDigits (params_number req)). 0x30 \<le> c \<and> c \<le> 0x39)
        \<and> filter isDigit (stripNonDigits (params_number req))
            = filter isDigit (params_number req))
   \<and> (body req (js ''message'') = Some v \<and> truthy v
        \<and> (\<not> isConnected this \<or> sock this = None) \<longrightarrow>
        post_send e this req
          = (\<lparr>status_code = 500,
              json_body = JsonFailure (Error (Some (js ''Bot not connected'')))\<rparr>, []))"
  using post_send_rejected [of req e this] post_send_connected [of req v this h e]
    post_send_not_connected [of req v this e] stripNonDigits_digits [of "params_number req"]
  by blast

theorem C7_post_send_witness:
  "post_send (exampleEnv (Completed None)) connectedBot
      \<lparr>params_number = js ''263771234567'', body = Map.empty\<rparr>
     = (\<lparr>status_code = 400, json_body = JsonError (js ''Message required'')\<rparr>, [])
   \<and> snd (post_send (exampleEnv (Completed None)) connectedBot
            (exampleRequest (js ''263771234567'') (JString (js ''hi''))))
     = [SendMessage 1 (js ''263771234567@s.whatsapp.net'')
          \<lparr>reply_text = JString (js ''hi''), mentions = None\<rparr>]
   \<and> snd (post_send (exampleEnv (Completed None)) connectedBot
            (exampleRequest (js ''+263 (77) 123-4567'') (JString (js ''hi''))))
     = [SendMessage 1 (js ''263771234567@s.whatsapp.net'')
          \<lparr>reply_text = JString (js ''hi''), mentions = None\<rparr>]
   \<and> post_send (exampleEnv (Completed None)) constructor
        (exampleRequest (js ''263771234567'') (JString (js ''hi'')))
     = (\<lparr>status_code = 500,
         json_body = JsonFailure (Error (Some (js ''Bot not connected'')))\<rparr>, [])"
proof -
  let ?e = "exampleEnv (Completed None)"
  let ?hi = "JString (js ''hi'')"
  let ?r0 = "\<lparr>params_number = js ''263771234567'', body = Map.empty\<rparr>"
  let ?r1 = "exampleRequest (js ''263771234567'') ?hi"
  let ?r2 = "exampleRequest (js ''+263 (77) 123-4567'') ?hi"
  have b: "body ?r0 (js ''message'') = None" "body ?r1 (js ''message'') = Some ?hi"
      "body ?r2 (js ''message'') = Some ?hi" "truthy ?hi"
    by (simp_all add: exampleRequest_def js_def)
  have c: "isConnected connectedBot" "sock connectedBot = Some 1"
      "\<not> isConnected constructor \<or> sock constructor = None"
    by (simp_all add: connectedBot_def constructor_def)
  have n: "stripNonDigits (params_number ?r1) @ js ''@s.whatsapp.net''
             = js ''263771234567@s.whatsapp.net''"
      "stripNonDigits (params_number ?r2) @ js ''@s.whatsapp.net''
             = js ''263771234567@s.whatsapp.net''"
    by (simp_all add: exampleRequest_def stripNonDigits_def isDigit_def js_def)
  from C7_post_send [of ?r0 ?e connectedBot ?hi 1] b(1) have 0:
    "post_send ?e connectedBot ?r0
       = (\<lparr>status_code = 400, json_body = JsonError (js ''Message required'')\<rparr>, [])"
    by blast
  from C7_post_send [of ?r1 ?e connectedBot ?hi 1] b(2,4) c(1,2) have
    "snd (post_send ?e connectedBot ?r1)
       = [SendMessage 1 (stripNonDigits (params_number ?r1) @ js ''@s.whatsapp.net'')
            \<lparr>reply_text = ?hi, mentions = None\<rparr>]"
    by blast
  then have 1: "snd (post_send ?e connectedBot ?r1)
       = [SendMessage 1 (js ''263771234567@s.whatsapp.net'')
            \<lparr>reply_text = ?hi, mentions = None\<rparr>]"
    by (simp only: n)
  from C7_post_send [of ?r2 ?e connectedBot ?hi 1] b(3,4) c(1,2) have
    "snd (post_send ?e connectedBot ?r2)
       = [SendMessage 1 (stripNonDigits (params_number ?r2) @ js ''@s.whatsapp.net'')
            \<lparr>reply_text = ?hi, mentions = None\<rparr>]"
    by blast
  then have 2: "snd (post_send ?e connectedBot ?r2)
       = [SendMessage 1 (js ''263771234567@s.whatsapp.net'')
            \<lparr>reply_text = ?hi, mentions = None\<rparr>]"
    by (simp only: n)
  from C7_post_send [of ?r1 ?e constructor ?hi 1] b(2,4) c(3) have 3:
    "post_send ?e constructor ?r1
       = (\<lparr>status_code = 500,
           json_body = JsonFailure (Error (Some (js ''Bot not connected'')))\<rparr>, [])"
    by blast
  from 0 1 2 3 show ?thesis by blast
qed

end
